theory Spec2Isabelle
  imports Main "HOL-Library.AList"
begin

section \<open>Emby-IPLimit: the session monitor (scripts/monitor.py, scripts/security.py)\<close>

text \<open>
  The monitor polls the media server, diffs the fetched sessions against its in-memory
  dictionary \<open>active_sessions\<close>, records starts and ends in the database, and disables
  an account that plays from too many distinct IP addresses at once.

  Python strings are modelled as byte strings in UTF-8 (\<open>string\<close>); the Chinese
  placeholders of the source are spelled out byte by byte. \<open>str.strip\<close> and
  \<open>str.lower\<close> are built-in methods of Python that follow the Unicode tables of
  whitespace and case; they are not modelled but taken as parameters (\<open>str_strip\<close> and
  \<open>str_lower\<close> below), and nothing is assumed about what they compute.
  Everything the monitor does to the outside world (console output and calls of its
  collaborators) is appended to a trace. The collaborators themselves (the media-server
  client, the database, HTTP, the clock) are parameters: each answer may depend on the
  whole trace so far, so the same call may be answered differently at different moments.
\<close>

subsection \<open>Strings\<close>

text \<open>\<open>s.split(':')[0]\<close>: the part before the first colon (all of \<open>s\<close> without one).\<close>

definition split_colon_first :: "string \<Rightarrow> string" where
  "split_colon_first s = takeWhile (\<lambda>c. c \<noteq> CHR '':'') s"

text \<open>\<open>', '.join(parts)\<close>\<close>

fun join_comma :: "string list \<Rightarrow> string" where
  "join_comma [] = []"
| "join_comma [p] = p"
| "join_comma (p # q # ps) = p @ '', '' @ join_comma (q # ps)"

text \<open>The placeholders of the source, in UTF-8.\<close>

definition unknown_user :: string where
  "unknown_user = [CHR 0xE6, CHR 0x9C, CHR 0xAA, CHR 0xE7, CHR 0x9F, CHR 0xA5,
                   CHR 0xE7, CHR 0x94, CHR 0xA8, CHR 0xE6, CHR 0x88, CHR 0xB7]"

definition unknown_device :: string where
  "unknown_device = [CHR 0xE6, CHR 0x9C, CHR 0xAA, CHR 0xE7, CHR 0x9F, CHR 0xA5,
                     CHR 0xE8, CHR 0xAE, CHR 0xBE, CHR 0xE5, CHR 0xA4, CHR 0x87]"

definition unknown_client :: string where
  "unknown_client = [CHR 0xE6, CHR 0x9C, CHR 0xAA, CHR 0xE7, CHR 0x9F, CHR 0xA5,
                     CHR 0xE5, CHR 0xAE, CHR 0xA2, CHR 0xE6, CHR 0x88, CHR 0xB7,
                     CHR 0xE7, CHR 0xAB, CHR 0xAF]"

definition unknown_location :: string where
  "unknown_location = [CHR 0xE6, CHR 0x9C, CHR 0xAA, CHR 0xE7, CHR 0x9F, CHR 0xA5,
                       CHR 0xE4, CHR 0xBD, CHR 0x8D, CHR 0xE7, CHR 0xBD, CHR 0xAE]"

definition unknown_region :: string where
  "unknown_region = [CHR 0xE6, CHR 0x9C, CHR 0xAA, CHR 0xE7, CHR 0x9F, CHR 0xA5,
                     CHR 0xE5, CHR 0x8C, CHR 0xBA, CHR 0xE5, CHR 0x9F, CHR 0x9F]"

definition resolve_failed :: string where
  "resolve_failed = [CHR 0xE8, CHR 0xA7, CHR 0xA3, CHR 0xE6, CHR 0x9E, CHR 0x90,
                     CHR 0xE5, CHR 0xA4, CHR 0xB1, CHR 0xE8, CHR 0xB4, CHR 0xA5]"

subsection \<open>Data\<close>

text \<open>
  Exceptions (subclasses of Python's \<open>Exception\<close>) as values. The handlers of the monitor
  tell \<open>KeyError\<close> from the rest; \<open>OtherError\<close> stands for every other subclass.
\<close>

datatype exn = KeyError string | ValueError string | OtherError string

text \<open>
  A session as the media server reports it: a dictionary whose keys may be missing.
  Values that are present are taken to be strings (the item being played is a
  dictionary of its own).
\<close>

record raw_session =
  raw_Id :: "string option"
  raw_UserId :: "string option"
  raw_RemoteEndPoint :: "string option"
  raw_NowPlayingItem :: "(string \<times> string) list option"
  raw_DeviceName :: "string option"
  raw_Client :: "string option"

record user_info =
  ui_Name :: "string option"

text \<open>The dictionary \<open>session_data\<close> built in \<open>_record_session_start\<close>. Times are microseconds.\<close>

record session_data =
  session_id :: string
  user_id :: string
  username :: string
  ip :: string
  device :: string
  client :: string
  media :: string
  start_time :: int
  location :: string

text \<open>The dictionary \<open>log_data\<close> built in \<open>_log_security_action\<close>.\<close>

record security_log =
  log_timestamp :: int
  log_user_id :: string
  log_username :: string
  log_trigger_ip :: string
  log_active_sessions :: int
  log_action :: string

text \<open>The argument of \<open>WebhookNotifier.send_ban_notification\<close> (webhook_notifier.py).\<close>

record ban_info =
  ban_username :: string
  ban_user_id :: string
  ban_ip_address :: string
  ban_ip_type :: string
  ban_location :: string
  ban_session_count :: int
  ban_reason :: string
  ban_device :: string
  ban_client :: string
  ban_timestamp :: string

text \<open>The answer of the geo-location service as \<open>_get_location\<close> reads it.\<close>

record ipdata =
  info1 :: "string option"
  info2 :: "string option"
  info3 :: "string option"

record geo_body =
  geo_code :: "int option"
  geo_ipdata :: "ipdata option"

record http_response =
  status_code :: int
  json :: "exn + geo_body"

text \<open>Console output, one constructor for each \<open>print\<close> of the source.\<close>

datatype console =
    MsgUpdateFailed exn
  | MsgWhitelistSkip string
  | MsgSessionStart string string string string string
  | MsgMissingField exn
  | MsgRecordFailed exn
  | MsgSessionEnd string int
  | MsgSessionGone string
  | MsgEndFailed exn
  | MsgGeoFailed string exn
  | MsgWhitelistProtected string
  | MsgSeparator
  | MsgAlert int string string string int
  | MsgAlertFailed exn
  | MsgSecurityLogFailed exn
  | MsgDisabling string string
  | MsgDisabled string
  | MsgDisableHttp int
  | MsgDisableError string exn
  | MsgStartup string
  | MsgShutdown
  | MsgAbnormal exn

text \<open>
  What the monitor does to the outside: console output and the calls of its collaborators
  (the three database methods, \<open>EmbySecurity.disable_user\<close>, and the webhook notifier).
  A call is recorded when it is made, whether or not it then raises.
\<close>

datatype event =
    Print console
  | DbRecordSessionStart session_data
  | DbRecordSessionEnd string int int
  | DbLogSecurityEvent security_log
  | DisableUser string string
  | SendBanNotification ban_info

text \<open>
  The collaborators. \<open>emby_client.py\<close> is not part of the sources, so the three methods of
  the client are parameters; an answer \<open>Inl e\<close> is the exception \<open>e\<close> raised by the call
  (or by the first use of an answer of the wrong shape). The database methods return
  nothing: \<open>Some e\<close> is the exception raised, \<open>None\<close> a normal return.
  \<open>policy_post\<close> is the HTTP POST of \<open>disable_user\<close> (its status code),
  \<open>keyboard_interrupt\<close> tells whether Ctrl-C arrives during a sleep.
  \<open>str_strip\<close> and \<open>str_lower\<close> are Python's \<open>str.strip()\<close> and \<open>str.lower()\<close>.
\<close>

record env =
  str_strip :: "string \<Rightarrow> string"
  str_lower :: "string \<Rightarrow> string"
  get_active_sessions :: "event list \<Rightarrow> exn + (string \<times> raw_session) list"
  get_user_info :: "event list \<Rightarrow> string \<Rightarrow> exn + user_info"
  parse_media_info :: "event list \<Rightarrow> (string \<times> string) list \<Rightarrow> exn + string"
  requests_get :: "event list \<Rightarrow> string \<Rightarrow> exn + http_response"
  datetime_now :: "event list \<Rightarrow> int"
  db_record_session_start :: "event list \<Rightarrow> session_data \<Rightarrow> exn option"
  db_record_session_end :: "event list \<Rightarrow> string \<Rightarrow> int \<Rightarrow> int \<Rightarrow> exn option"
  db_log_security_event :: "event list \<Rightarrow> security_log \<Rightarrow> exn option"
  policy_post :: "event list \<Rightarrow> string \<Rightarrow> exn + int"
  keyboard_interrupt :: "event list \<Rightarrow> bool"

text \<open>The configuration values the monitor reads (config_loader.py does not validate them).\<close>

record config =
  cfg_whitelist :: "string list"
  cfg_auto_disable :: bool
  cfg_alert_threshold :: int
  cfg_enable_alerts :: bool
  cfg_check_interval :: int
  cfg_database_name :: string

text \<open>The fields of \<open>EmbyMonitor\<close> set once by \<open>__init__\<close>.\<close>

record monitor =
  whitelist :: "string list"
  auto_disable :: bool
  alert_threshold :: int
  alerts_enabled :: bool

text \<open>
  The mutable part: the dictionary \<open>active_sessions\<close> (an association list in insertion
  order, as a Python dictionary iterates) and the trace.
\<close>

record state =
  active_sessions :: "(string \<times> session_data) list"
  trace :: "event list"

definition EmbyMonitor_init :: "env \<Rightarrow> config \<Rightarrow> monitor" where
  "EmbyMonitor_init env cfg =
     \<lparr> whitelist = map (\<lambda>name. str_lower env (str_strip env name))
                       (filter (\<lambda>name. str_strip env name \<noteq> []) (cfg_whitelist cfg)),
       auto_disable = cfg_auto_disable cfg,
       alert_threshold = cfg_alert_threshold cfg,
       alerts_enabled = cfg_enable_alerts cfg \<rparr>"

definition initial_state :: state where
  "initial_state = \<lparr> active_sessions = [], trace = [] \<rparr>"

definition emit :: "event \<Rightarrow> state \<Rightarrow> state" where
  "emit e st = st\<lparr>trace := trace st @ [e]\<rparr>"

definition print_msg :: "console \<Rightarrow> state \<Rightarrow> state" where
  "print_msg m st = emit (Print m) st"

subsection \<open>security.py: \<open>EmbySecurity.disable_user\<close>\<close>

definition disable_user :: "env \<Rightarrow> state \<Rightarrow> string \<Rightarrow> string \<Rightarrow> bool \<times> state" where
  "disable_user env st uid uname =
     (let st0 = emit (DisableUser uid uname) st;
          display_name = (if uname = [] then uid else uname);
          st1 = print_msg (MsgDisabling display_name uid) st0
      in case policy_post env (trace st1) uid of
           Inl e \<Rightarrow> (False, print_msg (MsgDisableError display_name e) st1)
         | Inr status \<Rightarrow>
             if status = 200 \<or> status = 204
             then (True, print_msg (MsgDisabled display_name) st1)
             else (False, print_msg (MsgDisableHttp status) st1))"

subsection \<open>monitor.py\<close>

definition api_url :: "string \<Rightarrow> string" where
  "api_url ip_address = ''https://api.vore.top/api/IPdata?ip='' @ ip_address"

definition truthy :: "string option \<Rightarrow> bool" where
  "truthy v = (case v of None \<Rightarrow> False | Some s \<Rightarrow> s \<noteq> [])"

definition loc_parts :: "ipdata \<Rightarrow> string list" where
  "loc_parts d = map the (filter truthy [info1 d, info2 d, info3 d])"

definition get_location :: "env \<Rightarrow> state \<Rightarrow> string \<Rightarrow> string \<times> state" where
  "get_location env st ip_address =
     (if ip_address = [] then (unknown_location, st)
      else case requests_get env (trace st) (api_url ip_address) of
             Inl e \<Rightarrow> (resolve_failed, print_msg (MsgGeoFailed ip_address e) st)
           | Inr response \<Rightarrow>
               if status_code response = 200 then
                 (case json response of
                    Inl e \<Rightarrow> (resolve_failed, print_msg (MsgGeoFailed ip_address e) st)
                  | Inr data \<Rightarrow>
                      (case geo_code data of
                         None \<Rightarrow> (resolve_failed, print_msg (MsgGeoFailed ip_address (KeyError ''code'')) st)
                       | Some c \<Rightarrow>
                           (case geo_ipdata data of
                              None \<Rightarrow> (unknown_region, st)
                            | Some d \<Rightarrow>
                                if c = 200 then
                                  (if loc_parts d \<noteq> [] then (join_comma (loc_parts d), st)
                                   else (unknown_region, st))
                                else (unknown_region, st))))
               else (resolve_failed, st))"

definition log_security_action :: "env \<Rightarrow> state \<Rightarrow> string \<Rightarrow> string \<Rightarrow> int \<Rightarrow> string \<Rightarrow> state" where
  "log_security_action env st uid ip_addr count uname =
     (let log_data = \<lparr> log_timestamp = datetime_now env (trace st), log_user_id = uid,
                       log_username = uname, log_trigger_ip = ip_addr,
                       log_active_sessions = count, log_action = ''DISABLE'' \<rparr>;
          st1 = emit (DbLogSecurityEvent log_data) st
      in case db_log_security_event env (trace st1) log_data of
           Some e \<Rightarrow> print_msg (MsgSecurityLogFailed e) st1
         | None \<Rightarrow> st1)"

definition resolved_name :: "env \<Rightarrow> user_info \<Rightarrow> string" where
  "resolved_name env ui = str_strip env (case ui_Name ui of None \<Rightarrow> unknown_user | Some n \<Rightarrow> n)"

definition trigger_alert :: "env \<Rightarrow> monitor \<Rightarrow> state \<Rightarrow> string \<Rightarrow> string \<Rightarrow> int \<Rightarrow> state" where
  "trigger_alert env mon st uid trigger_ip session_count =
     (case get_user_info env (trace st) uid of
        Inl e \<Rightarrow> print_msg (MsgAlertFailed e) st
      | Inr ui \<Rightarrow>
          let uname = resolved_name env ui in
          if str_lower env uname \<in> set (whitelist mon) then print_msg (MsgWhitelistProtected uname) st
          else
            let (loc, st1) = get_location env st trigger_ip;
                st2 = print_msg MsgSeparator st1;
                st3 = print_msg (MsgAlert (datetime_now env (trace st1)) uname trigger_ip loc session_count) st2;
                st4 = print_msg MsgSeparator st3
            in if auto_disable mon then
                 (let (ok, st5) = disable_user env st4 uid uname
                  in if ok then log_security_action env st5 uid trigger_ip session_count uname
                     else st5)
               else st4)"

text \<open>
  \<open>existing_ips\<close> is a Python set filled by a loop over \<open>active_sessions.values()\<close>.
\<close>

definition existing_ips :: "(string \<times> session_data) list \<Rightarrow> string \<Rightarrow> string \<Rightarrow> string set" where
  "existing_ips sessions uid new_ip =
     fold (\<lambda>sess acc. if user_id sess = uid \<and> ip sess \<noteq> new_ip then insert (ip sess) acc else acc)
          (map snd sessions) {}"

definition check_login_abnormality :: "env \<Rightarrow> monitor \<Rightarrow> state \<Rightarrow> string \<Rightarrow> string \<Rightarrow> state" where
  "check_login_abnormality env mon st uid new_ip =
     (if \<not> alerts_enabled mon then st
      else
        let ips = existing_ips (active_sessions st) uid new_ip in
        if int (card ips) \<ge> alert_threshold mon - 1
        then trigger_alert env mon st uid new_ip (int (card ips) + 1)
        else st)"

text \<open>The two handlers at the end of \<open>_record_session_start\<close>.\<close>

definition start_failed :: "exn \<Rightarrow> state \<Rightarrow> state" where
  "start_failed e st =
     (case e of KeyError k \<Rightarrow> print_msg (MsgMissingField e) st
              | _ \<Rightarrow> print_msg (MsgRecordFailed e) st)"

definition endpoint_ip :: "raw_session \<Rightarrow> string" where
  "endpoint_ip session =
     split_colon_first (case raw_RemoteEndPoint session of None \<Rightarrow> [] | Some r \<Rightarrow> r)"

definition build_session_data ::
  "raw_session \<Rightarrow> string \<Rightarrow> string \<Rightarrow> string \<Rightarrow> string \<Rightarrow> int \<Rightarrow> string \<Rightarrow> session_data" where
  "build_session_data session sid uid uname media_name now loc =
     \<lparr> session_id = sid, user_id = uid, username = uname, ip = endpoint_ip session,
       device = (case raw_DeviceName session of None \<Rightarrow> unknown_device | Some d \<Rightarrow> d),
       client = (case raw_Client session of None \<Rightarrow> unknown_client | Some c \<Rightarrow> c),
       media = media_name, start_time = now, location = loc \<rparr>"

definition record_session_start :: "env \<Rightarrow> monitor \<Rightarrow> state \<Rightarrow> raw_session \<Rightarrow> state" where
  "record_session_start env mon st session =
     (case raw_UserId session of
        None \<Rightarrow> start_failed (KeyError ''UserId'') st
      | Some uid \<Rightarrow>
          (case get_user_info env (trace st) uid of
             Inl e \<Rightarrow> start_failed e st
           | Inr ui \<Rightarrow>
               let ip_address = endpoint_ip session;
                   uname = resolved_name env ui
               in if str_lower env uname \<in> set (whitelist mon) then print_msg (MsgWhitelistSkip uname) st
                  else
                    (case parse_media_info env (trace st)
                            (case raw_NowPlayingItem session of None \<Rightarrow> [] | Some m \<Rightarrow> m) of
                       Inl e \<Rightarrow> start_failed e st
                     | Inr media_name \<Rightarrow>
                         let (loc, st1) = get_location env st ip_address in
                         (case raw_Id session of
                            None \<Rightarrow> start_failed (KeyError ''Id'') st1
                          | Some sid \<Rightarrow>
                              let sd = build_session_data session sid uid uname media_name
                                         (datetime_now env (trace st1)) loc;
                                  st2 = emit (DbRecordSessionStart sd) st1
                              in (case db_record_session_start env (trace st2) sd of
                                    Some e \<Rightarrow> start_failed e st2
                                  | None \<Rightarrow>
                                      let st3 = st2\<lparr>active_sessions := AList.update sid sd (active_sessions st2)\<rparr>;
                                          st4 = print_msg (MsgSessionStart uname (device sd) ip_address loc (media sd)) st3
                                      in check_login_abnormality env mon st4 uid ip_address)))))"

text \<open>\<open>int(timedelta.total_seconds())\<close>: whole seconds, rounded towards zero.\<close>

definition whole_seconds :: "int \<Rightarrow> int" where
  "whole_seconds us = (if 0 \<le> us then us div 1000000 else - ((- us) div 1000000))"

definition record_session_end :: "env \<Rightarrow> state \<Rightarrow> string \<Rightarrow> state" where
  "record_session_end env st sid =
     (case map_of (active_sessions st) sid of
        None \<Rightarrow> print_msg (MsgSessionGone sid) st
      | Some sd \<Rightarrow>
          let end_time = datetime_now env (trace st);
              duration = whole_seconds (end_time - start_time sd);
              st1 = emit (DbRecordSessionEnd sid end_time duration) st
          in (case db_record_session_end env (trace st1) sid end_time duration of
                Some (KeyError k) \<Rightarrow> print_msg (MsgSessionGone sid) st1
              | Some e \<Rightarrow> print_msg (MsgEndFailed e) st1
              | None \<Rightarrow>
                  (print_msg (MsgSessionEnd (username sd) duration) st1)
                    \<lparr>active_sessions := AList.delete sid (active_sessions st1)\<rparr>))"

fun detect_new_sessions :: "env \<Rightarrow> monitor \<Rightarrow> state \<Rightarrow> (string \<times> raw_session) list \<Rightarrow> state" where
  "detect_new_sessions env mon st [] = st"
| "detect_new_sessions env mon st ((sid, session) # rest) =
     detect_new_sessions env mon
       (if sid \<in> set (map fst (active_sessions st)) then st
        else record_session_start env mon st session) rest"

text \<open>
  \<open>ended\<close> is a set difference; Python iterates it in an arbitrary order, the model in the
  order of the dictionary.
\<close>

definition ended_sessions :: "state \<Rightarrow> (string \<times> raw_session) list \<Rightarrow> string list" where
  "ended_sessions st current =
     remdups (filter (\<lambda>sid. sid \<notin> set (map fst current)) (map fst (active_sessions st)))"

definition detect_ended_sessions :: "env \<Rightarrow> state \<Rightarrow> (string \<times> raw_session) list \<Rightarrow> state" where
  "detect_ended_sessions env st current =
     fold (\<lambda>sid s. record_session_end env s sid) (ended_sessions st current) st"

definition process_sessions :: "env \<Rightarrow> monitor \<Rightarrow> state \<Rightarrow> state" where
  "process_sessions env mon st =
     (case get_active_sessions env (trace st) of
        Inl e \<Rightarrow> print_msg (MsgUpdateFailed e) st
      | Inr current \<Rightarrow> detect_ended_sessions env (detect_new_sessions env mon st current) current)"

text \<open>
  \<open>time.sleep\<close>: a negative argument raises \<open>ValueError\<close>; otherwise the sleep ends in time
  or is cut short by \<open>KeyboardInterrupt\<close>.
\<close>

datatype sleep_result = Slept | Interrupted | SleepRaised exn

definition time_sleep :: "env \<Rightarrow> event list \<Rightarrow> int \<Rightarrow> sleep_result" where
  "time_sleep env h secs =
     (if secs < 0 then SleepRaised (ValueError ''sleep length must be non-negative'')
      else if keyboard_interrupt env h then Interrupted else Slept)"

text \<open>
  \<open>run\<close>: the loop \<open>while True\<close> has no exit of its own, so the model counts iterations:
  \<open>StillRunning\<close> after the given number of iterations, \<open>Returned\<close> when \<open>run\<close> has returned.
\<close>

datatype run_result = StillRunning state | Returned state

fun run_loop :: "env \<Rightarrow> config \<Rightarrow> monitor \<Rightarrow> nat \<Rightarrow> state \<Rightarrow> run_result" where
  "run_loop env cfg mon 0 st = StillRunning st"
| "run_loop env cfg mon (Suc n) st =
     (let st1 = process_sessions env mon st
      in case time_sleep env (trace st1) (cfg_check_interval cfg) of
           Slept \<Rightarrow> run_loop env cfg mon n st1
         | Interrupted \<Rightarrow> Returned (print_msg MsgShutdown st1)
         | SleepRaised e \<Rightarrow> Returned (print_msg (MsgAbnormal e) st1))"

definition run :: "env \<Rightarrow> config \<Rightarrow> monitor \<Rightarrow> nat \<Rightarrow> state \<Rightarrow> run_result" where
  "run env cfg mon n st = run_loop env cfg mon n (print_msg (MsgStartup (cfg_database_name cfg)) st)"


section \<open>Notions used to state the properties\<close>

text \<open>
  These definitions do not model code; they name what the properties below talk about.
\<close>

text \<open>
  The number of distinct IP addresses other than \<open>p\<close> among the active sessions of user \<open>u\<close>.
\<close>

definition distinct_other_ips :: "(string \<times> session_data) list \<Rightarrow> string \<Rightarrow> string \<Rightarrow> nat" where
  "distinct_other_ips sessions u p = card (ip ` {sd \<in> snd ` set sessions. user_id sd = u} - {p})"

text \<open>
  \<open>only_logged st st'\<close>: from \<open>st\<close> to \<open>st'\<close> the dictionary is unchanged and nothing but
  console output has happened.
\<close>

definition only_logged :: "state \<Rightarrow> state \<Rightarrow> bool" where
  "only_logged st st' \<longleftrightarrow>
     active_sessions st' = active_sessions st \<and> (\<exists>msgs. trace st' = trace st @ map Print msgs)"

text \<open>The security-log entries and the webhook notifications of a trace, in order.\<close>

fun security_logs :: "event list \<Rightarrow> security_log list" where
  "security_logs [] = []"
| "security_logs (DbLogSecurityEvent l # es) = l # security_logs es"
| "security_logs (e # es) = security_logs es"

fun ban_notifications :: "event list \<Rightarrow> ban_info list" where
  "ban_notifications [] = []"
| "ban_notifications (SendBanNotification b # es) = b # ban_notifications es"
| "ban_notifications (e # es) = ban_notifications es"

text \<open>
  \<open>built_from current k v\<close>: the record \<open>v\<close> is the dictionary \<open>session_data\<close> built from a
  session of the fetch \<open>current\<close> whose \<open>Id\<close> is \<open>k\<close>. \<open>kept_or_built\<close> says that every entry
  of the later dictionary is an entry of the earlier one, unchanged, or such a new record.
\<close>

definition built_from :: "(string \<times> raw_session) list \<Rightarrow> string \<Rightarrow> session_data \<Rightarrow> bool" where
  "built_from current k v \<longleftrightarrow>
     (\<exists>s \<in> snd ` set current. \<exists>uid uname media_name now loc.
        raw_Id s = Some k \<and> raw_UserId s = Some uid
        \<and> v = build_session_data s k uid uname media_name now loc)"

definition kept_or_built ::
  "(string \<times> raw_session) list \<Rightarrow> (string \<times> session_data) list \<Rightarrow> (string \<times> session_data) list \<Rightarrow> bool" where
  "kept_or_built current m m' \<longleftrightarrow>
     (\<forall>k v. map_of m' k = Some v \<longrightarrow> map_of m k = Some v \<or> built_from current k v)"

text \<open>Every record of the dictionary is stored under its own \<open>session_id\<close>.\<close>

definition keys_match :: "(string \<times> session_data) list \<Rightarrow> bool" where
  "keys_match m \<longleftrightarrow> (\<forall>k v. map_of m k = Some v \<longrightarrow> session_id v = k)"

text \<open>
  The user name a call of a collaborator is about (console output is about nobody), and
  what it means for a trimmed name to match an entry of the configured whitelist: the
  name and the entry, trimmed by \<open>str.strip\<close>, have the same \<open>str.lower\<close> form. An entry
  that is blank after trimming is dropped by \<open>__init__\<close> and matches nothing.
\<close>

fun event_username :: "event \<Rightarrow> string option" where
  "event_username (Print m) = None"
| "event_username (DbRecordSessionStart sd) = Some (username sd)"
| "event_username (DbRecordSessionEnd sid t d) = None"
| "event_username (DbLogSecurityEvent l) = Some (log_username l)"
| "event_username (DisableUser uid uname) = Some uname"
| "event_username (SendBanNotification b) = Some (ban_username b)"

definition matches_whitelist :: "env \<Rightarrow> config \<Rightarrow> string \<Rightarrow> bool" where
  "matches_whitelist env cfg trimmed_name \<longleftrightarrow>
     (\<exists>w \<in> set (cfg_whitelist cfg).
        str_strip env w \<noteq> [] \<and> str_lower env trimmed_name = str_lower env (str_strip env w))"

text \<open>
  The state is free of whitelisted names: no record of the dictionary and no call in the
  trace carries a name whose \<open>str.lower\<close> form is in \<open>self.whitelist\<close>.
\<close>

definition ev_ok :: "env \<Rightarrow> monitor \<Rightarrow> event \<Rightarrow> bool" where
  "ev_ok env mon e = (case event_username e of None \<Rightarrow> True | Some nm \<Rightarrow> str_lower env nm \<notin> set (whitelist mon))"

definition trace_ok :: "env \<Rightarrow> monitor \<Rightarrow> event list \<Rightarrow> bool" where
  "trace_ok env mon evs = list_all (ev_ok env mon) evs"

definition sessions_ok :: "env \<Rightarrow> monitor \<Rightarrow> (string \<times> session_data) list \<Rightarrow> bool" where
  "sessions_ok env mon m = list_all (\<lambda>(k, sd). str_lower env (username sd) \<notin> set (whitelist mon)) m"

definition wl_inv :: "env \<Rightarrow> monitor \<Rightarrow> state \<Rightarrow> bool" where
  "wl_inv env mon st \<longleftrightarrow> sessions_ok env mon (active_sessions st) \<and> trace_ok env mon (trace st)"

text \<open>
  \<open>recordable env mon k s\<close>: the session \<open>s\<close> has the id \<open>k\<close> and a user id, and at any
  moment the environment resolves that user to a name that is not whitelisted, renders the
  media label and accepts the start record.
\<close>

definition recordable :: "env \<Rightarrow> monitor \<Rightarrow> string \<Rightarrow> raw_session \<Rightarrow> bool" where
  "recordable env mon k s \<longleftrightarrow>
     raw_Id s = Some k
     \<and> (\<exists>u. raw_UserId s = Some u
            \<and> (\<forall>h. \<exists>ui. get_user_info env h u = Inr ui
                        \<and> str_lower env (resolved_name env ui) \<notin> set (whitelist mon)))
     \<and> (\<forall>h m. \<exists>media_name. parse_media_info env h m = Inr media_name)
     \<and> (\<forall>h sd. db_record_session_start env h sd = None)"


section \<open>Concrete scenarios\<close>

text \<open>
  A default configuration (threshold 2, automatic disabling on, whitelist \<open>" Admin "\<close> and
  a blank entry), variants of it, a well-behaved environment whose clock is the length of the
  trace in seconds, and a few sessions of the users \<open>alice\<close> and \<open>root\<close> (whose display name
  is \<open>"ADMIN "\<close>). The environments named \<open>..._down\<close> have one failing collaborator each.

  Every string of the scenarios consists of ASCII characters, and on such strings
  \<open>str.strip\<close> and \<open>str.lower\<close> compute what \<open>ascii_strip\<close> and \<open>ascii_lower\<close> do: the
  whitespace of ASCII is the tab, the line feed, the vertical tab, the form feed, the
  carriage return, the four separators 28 to 31 and the space, and its upper-case letters
  are A to Z. The properties themselves are proved for arbitrary \<open>str_strip\<close> and
  \<open>str_lower\<close>, so they hold for the Unicode-aware methods of Python.
\<close>

definition ascii_is_space :: "char \<Rightarrow> bool" where
  "ascii_is_space c = (let n = (of_char c :: nat) in (9 \<le> n \<and> n \<le> 13) \<or> (28 \<le> n \<and> n \<le> 32))"

definition ascii_strip :: "string \<Rightarrow> string" where
  "ascii_strip s = rev (dropWhile ascii_is_space (rev (dropWhile ascii_is_space s)))"

definition ascii_lower_char :: "char \<Rightarrow> char" where
  "ascii_lower_char c = (let n = (of_char c :: nat) in if 65 \<le> n \<and> n \<le> 90 then char_of (n + 32) else c)"

definition ascii_lower :: "string \<Rightarrow> string" where
  "ascii_lower s = map ascii_lower_char s"

definition cfg0 :: config where
  "cfg0 = \<lparr> cfg_whitelist = ['' Admin '', ''''], cfg_auto_disable = True, cfg_alert_threshold = 2,
            cfg_enable_alerts = True, cfg_check_interval = 10, cfg_database_name = ''emby_playback.db'' \<rparr>"

definition cfg_one :: config where
  "cfg_one = cfg0\<lparr>cfg_alert_threshold := 1\<rparr>"


definition env0 :: env where
  "env0 = \<lparr> str_strip = ascii_strip,
             str_lower = ascii_lower,
             get_active_sessions = (\<lambda>h. Inr []),
             get_user_info = (\<lambda>h uid. Inr \<lparr> ui_Name = Some (if uid = ''root'' then ''ADMIN '' else uid) \<rparr>),
             parse_media_info = (\<lambda>h m. Inr ''film''),
             requests_get = (\<lambda>h url. Inr \<lparr> status_code = 404, json = Inl (ValueError ''no body'') \<rparr>),
             datetime_now = (\<lambda>h. int (length h) * 1000000),
             db_record_session_start = (\<lambda>h sd. None),
             db_record_session_end = (\<lambda>h sid t d. None),
             db_log_security_event = (\<lambda>h l. None),
             policy_post = (\<lambda>h uid. Inr 204),
             keyboard_interrupt = (\<lambda>h. False) \<rparr>"

definition mon0 :: monitor where
  "mon0 = EmbyMonitor_init env0 cfg0"

definition mon_one :: monitor where
  "mon_one = EmbyMonitor_init env0 cfg_one"

definition sess_a1 :: raw_session where
  "sess_a1 = \<lparr> raw_Id = Some ''s1'', raw_UserId = Some ''alice'', raw_RemoteEndPoint = Some ''1.1.1.1:5000'',
               raw_NowPlayingItem = None, raw_DeviceName = Some ''tv'', raw_Client = Some ''web'' \<rparr>"

definition sess_a2 :: raw_session where
  "sess_a2 = \<lparr> raw_Id = Some ''s2'', raw_UserId = Some ''alice'', raw_RemoteEndPoint = Some ''2.2.2.2:6000'',
               raw_NowPlayingItem = None, raw_DeviceName = Some ''phone'', raw_Client = Some ''app'' \<rparr>"

definition sess_root :: raw_session where
  "sess_root = \<lparr> raw_Id = Some ''s9'', raw_UserId = Some ''root'', raw_RemoteEndPoint = Some ''9.9.9.9:1'',
               raw_NowPlayingItem = None, raw_DeviceName = None, raw_Client = None \<rparr>"

definition sess_noid :: raw_session where
  "sess_noid = \<lparr> raw_Id = None, raw_UserId = Some ''alice'', raw_RemoteEndPoint = Some ''3.3.3.3:1'',
               raw_NowPlayingItem = None, raw_DeviceName = None, raw_Client = None \<rparr>"

definition sd_a1 :: session_data where
  "sd_a1 = build_session_data sess_a1 ''s1'' ''alice'' ''alice'' ''film'' 0 resolve_failed"

definition sd_a2 :: session_data where
  "sd_a2 = build_session_data sess_a2 ''s2'' ''alice'' ''alice'' ''film'' 0 resolve_failed"

definition st_a1 :: state where
  "st_a1 = \<lparr> active_sessions = [(''s1'', sd_a1)], trace = [] \<rparr>"

definition st_a12 :: state where
  "st_a12 = \<lparr> active_sessions = [(''s1'', sd_a1), (''s2'', sd_a2)],
              trace = [DbRecordSessionStart sd_a2,
                       Print (MsgSessionStart ''alice'' ''phone'' ''2.2.2.2'' resolve_failed ''film'')] \<rparr>"

definition env_s1 :: env where
  "env_s1 = env0\<lparr> get_active_sessions := \<lambda>h. Inr [(''s1'', sess_a1)] \<rparr>"

definition env_db_down :: env where
  "env_db_down = env_s1\<lparr> db_record_session_start := \<lambda>h sd. Some (OtherError ''database is locked'') \<rparr>"

definition env_end_down :: env where
  "env_end_down = env0\<lparr> db_record_session_end := \<lambda>h sid t d. Some (OtherError ''database is locked'') \<rparr>"

definition env_fetch_down :: env where
  "env_fetch_down = env0\<lparr> get_active_sessions := \<lambda>h. Inl (OtherError ''connection refused'') \<rparr>"

definition alice_info :: user_info where
  "alice_info = \<lparr> ui_Name = Some ''alice'' \<rparr>"

definition root_info :: user_info where
  "root_info = \<lparr> ui_Name = Some ''ADMIN '' \<rparr>"

definition sd_a3 :: session_data where
  "sd_a3 = sd_a1\<lparr>session_id := ''s3''\<rparr>"

definition st_same :: state where
  "st_same = \<lparr> active_sessions = [(''s1'', sd_a1), (''s3'', sd_a3)], trace = [] \<rparr>"

definition alert_a2 :: console where
  "alert_a2 = MsgAlert 0 ''alice'' ''2.2.2.2'' resolve_failed 2"

definition st_alerted :: state where
  "st_alerted = \<lparr> active_sessions = [], trace = [Print MsgSeparator, Print alert_a2, Print MsgSeparator] \<rparr>"

definition st_disabled :: state where
  "st_disabled = \<lparr> active_sessions = [],
                   trace = [Print MsgSeparator, Print alert_a2, Print MsgSeparator,
                            DisableUser ''alice'' ''alice'', Print (MsgDisabling ''alice'' ''alice''),
                            Print (MsgDisabled ''alice'')] \<rparr>"

definition log_a2 :: security_log where
  "log_a2 = \<lparr> log_timestamp = 6000000, log_user_id = ''alice'', log_username = ''alice'',
              log_trigger_ip = ''2.2.2.2'', log_active_sessions = 2, log_action = ''DISABLE'' \<rparr>"

definition env_fetch :: env where
  "env_fetch = env0\<lparr> get_active_sessions := \<lambda>h. Inr [(''s9'', sess_root), (''s1'', sess_a1)] \<rparr>"

definition env_bad :: env where
  "env_bad = env0\<lparr> get_active_sessions := \<lambda>h. Inr [(''s0'', sess_noid), (''s1'', sess_a1)] \<rparr>"

definition sd_a1_late :: session_data where
  "sd_a1_late = sd_a1\<lparr>start_time := 1000000\<rparr>"


section \<open>Basic facts\<close>

text \<open>
  How each operation changes the dictionary and the trace. Console output and
  \<open>_get_location\<close>, \<open>disable_user\<close>, \<open>_log_security_action\<close>, \<open>_trigger_alert\<close> and
  \<open>_check_login_abnormality\<close> leave the dictionary alone.
\<close>

lemma trace_emit [simp]: "trace (emit e st) = trace st @ [e]"
  by (simp add: emit_def)

lemma sessions_emit [simp]: "active_sessions (emit e st) = active_sessions st"
  by (simp add: emit_def)

lemma trace_print_msg [simp]: "trace (print_msg m st) = trace st @ [Print m]"
  by (simp add: print_msg_def)

lemma sessions_print_msg [simp]: "active_sessions (print_msg m st) = active_sessions st"
  by (simp add: print_msg_def)

lemma sessions_start_failed [simp]: "active_sessions (start_failed e st) = active_sessions st"
  by (simp add: start_failed_def split: exn.splits)

lemma trace_start_failed:
  "trace (start_failed e st) = trace st @ [Print (case e of KeyError k \<Rightarrow> MsgMissingField e | _ \<Rightarrow> MsgRecordFailed e)]"
  by (simp add: start_failed_def split: exn.splits)

lemma sessions_get_location [simp]: "active_sessions (snd (get_location env st a)) = active_sessions st"
  by (simp add: get_location_def split: sum.splits option.splits)

lemma trace_get_location:
  "\<exists>msgs. trace (snd (get_location env st a)) = trace st @ map Print msgs"
proof -
  have "trace (snd (get_location env st a)) = trace st @ map Print []
      \<or> (\<exists>e. trace (snd (get_location env st a)) = trace st @ map Print [MsgGeoFailed a e])"
    by (simp add: get_location_def split: sum.splits option.splits)
  then show ?thesis by blast
qed

lemma sessions_disable_user [simp]: "active_sessions (snd (disable_user env st u n)) = active_sessions st"
  by (simp add: disable_user_def Let_def split: sum.splits)

lemma sessions_log_security_action [simp]:
  "active_sessions (log_security_action env st u a c n) = active_sessions st"
  by (simp add: log_security_action_def Let_def split: option.splits)

lemma sessions_trigger_alert [simp]:
  "active_sessions (trigger_alert env mon st u a c) = active_sessions st"
  by (simp add: trigger_alert_def Let_def split_beta split: sum.splits)

lemma sessions_check_login_abnormality [simp]:
  "active_sessions (check_login_abnormality env mon st u a) = active_sessions st"
  by (simp add: check_login_abnormality_def Let_def)

text \<open>The loop that fills \<open>existing_ips\<close> computes the set of the other addresses of the user.\<close>

lemma fold_existing_ips:
  "fold (\<lambda>sess acc. if user_id sess = uid \<and> ip sess \<noteq> new_ip then insert (ip sess) acc else acc) xs acc
     = acc \<union> (ip ` {sd \<in> set xs. user_id sd = uid} - {new_ip})"
  by (induction xs arbitrary: acc) auto

lemma existing_ips_eq:
  "existing_ips sessions uid new_ip = ip ` {sd \<in> snd ` set sessions. user_id sd = uid} - {new_ip}"
  by (simp add: existing_ips_def fold_existing_ips)

lemma check_login_abnormality_eq:
  "check_login_abnormality env mon st u p =
     (if alerts_enabled mon \<and> alert_threshold mon - 1 \<le> int (distinct_other_ips (active_sessions st) u p)
      then trigger_alert env mon st u p (int (distinct_other_ips (active_sessions st) u p) + 1)
      else st)"
  by (simp add: check_login_abnormality_def existing_ips_eq distinct_other_ips_def Let_def)

text \<open>The shape of the trace after \<open>disable_user\<close>, \<open>_log_security_action\<close> and \<open>_trigger_alert\<close>.\<close>

lemma ex_prints [simp]:
  "\<exists>evs. [Print a] = map Print evs"
  "\<exists>evs. [Print a, Print b] = map Print evs"
  by (rule exI [of _ "[a]"], simp) (rule exI [of _ "[a, b]"], simp)

lemma trace_disable_user:
  "\<exists>evs. trace (snd (disable_user env st u n)) = trace st @ DisableUser u n # map Print evs"
  by (simp add: disable_user_def Let_def split: sum.splits)

lemma trace_log_security_action:
  "\<exists>l evs. log_user_id l = u \<and> log_username l = n \<and> log_trigger_ip l = a \<and> log_active_sessions l = c
      \<and> log_action l = ''DISABLE'' \<and> log_timestamp l = datetime_now env (trace st)
      \<and> trace (log_security_action env st u a c n) = trace st @ DbLogSecurityEvent l # map Print evs"
  by (auto simp add: log_security_action_def Let_def split: option.splits)

lemma trace_trigger_alert_grows:
  "length (trace st) < length (trace (trigger_alert env mon st u a c))"
proof (cases "get_user_info env (trace st) u")
  case (Inl e)
  then show ?thesis by (simp add: trigger_alert_def)
next
  case (Inr ui)
  obtain loc st1 where gl: "get_location env st a = (loc, st1)" by (cases "get_location env st a")
  from trace_get_location [of env st a] gl obtain msgs where t1: "trace st1 = trace st @ map Print msgs"
    by auto
  let ?st4 = "print_msg MsgSeparator (print_msg (MsgAlert (datetime_now env (trace st1)) (resolved_name env ui) a loc c) (print_msg MsgSeparator st1))"
  obtain ok st5 where du: "disable_user env ?st4 u (resolved_name env ui) = (ok, st5)"
    by (cases "disable_user env ?st4 u (resolved_name env ui)")
  from trace_disable_user [of env ?st4 u "resolved_name env ui"] du
  obtain evs where t5: "trace st5 = trace ?st4 @ DisableUser u (resolved_name env ui) # map Print evs" by auto
  from trace_log_security_action [where env = env and st = st5 and u = u and a = a and c = c and n = "resolved_name env ui"]
  obtain l evs' where t6: "trace (log_security_action env st5 u a c (resolved_name env ui)) = trace st5 @ DbLogSecurityEvent l # map Print evs'"
    by blast
  show ?thesis using Inr gl du t1 t5 t6
    by (simp add: trigger_alert_def Let_def)
qed

lemma trigger_alert_neq: "trigger_alert env mon st u a c \<noteq> st"
  using trace_trigger_alert_grows [of st env mon u a c] by auto

text \<open>Paths of \<open>_record_session_start\<close> that end in a handler before the database is called.\<close>

lemma only_logged_refl [simp]: "only_logged st st"
  unfolding only_logged_def by (auto intro: exI [of _ "[]"])

lemma only_logged_print: "only_logged st st' \<Longrightarrow> only_logged st (print_msg m st')"
  unfolding only_logged_def
proof (elim conjE exE)
  fix msgs assume "active_sessions st' = active_sessions st" "trace st' = trace st @ map Print msgs"
  then have "active_sessions (print_msg m st') = active_sessions st"
    and "trace (print_msg m st') = trace st @ map Print (msgs @ [m])" by simp_all
  then show "active_sessions (print_msg m st') = active_sessions st \<and>
        (\<exists>msgs. trace (print_msg m st') = trace st @ map Print msgs)" by blast
qed

lemma only_logged_start_failed: "only_logged st st' \<Longrightarrow> only_logged st (start_failed e st')"
  by (simp add: start_failed_def only_logged_print split: exn.splits)

lemma only_logged_get_location: "only_logged st (snd (get_location env st a))"
  unfolding only_logged_def using trace_get_location [of env st a] by simp

lemma record_session_start_missing_field:
  assumes "raw_Id s = None \<or> raw_UserId s = None"
  shows "only_logged st (record_session_start env mon st s)"
proof (cases "raw_UserId s")
  case None
  then show ?thesis by (simp add: record_session_start_def only_logged_start_failed)
next
  case (Some uid)
  with assms have noid: "raw_Id s = None" by simp
  show ?thesis
    using Some noid
    by (simp add: record_session_start_def Let_def split_beta only_logged_start_failed
          only_logged_print only_logged_get_location split: sum.splits)
qed

lemma security_logs_append [simp]: "security_logs (xs @ ys) = security_logs xs @ security_logs ys"
  by (induction xs rule: security_logs.induct) simp_all

lemma ban_notifications_append [simp]: "ban_notifications (xs @ ys) = ban_notifications xs @ ban_notifications ys"
  by (induction xs rule: ban_notifications.induct) simp_all

lemma security_logs_prints [simp]: "security_logs (map Print msgs) = []"
  by (induction msgs) simp_all

lemma ban_notifications_prints [simp]: "ban_notifications (map Print msgs) = []"
  by (induction msgs) simp_all



text \<open>
  The dictionary after \<open>_record_session_start\<close> and \<open>_record_session_end\<close>: unchanged, or one
  assignment of a new record, or one deletion.
\<close>

lemma record_session_start_sessions:
  "active_sessions (record_session_start env mon st s) = active_sessions st
   \<or> (\<exists>sid uid uname media_name now loc.
         raw_Id s = Some sid \<and> raw_UserId s = Some uid \<and> str_lower env uname \<notin> set (whitelist mon)
         \<and> active_sessions (record_session_start env mon st s) =
             AList.update sid (build_session_data s sid uid uname media_name now loc) (active_sessions st))"
  by (cases "raw_UserId s"; cases "raw_Id s")
     (auto simp add: record_session_start_def Let_def split_beta split: sum.splits option.splits)

lemma record_session_end_sessions:
  "active_sessions (record_session_end env st sid) = active_sessions st
   \<or> active_sessions (record_session_end env st sid) = AList.delete sid (active_sessions st)"
  by (auto simp add: record_session_end_def Let_def split: option.splits exn.splits)

lemma kept_or_built_start:
  assumes "s \<in> snd ` set current" and "kept_or_built current m (active_sessions st)"
  shows "kept_or_built current m (active_sessions (record_session_start env mon st s))"
proof -
  from record_session_start_sessions [of env mon st s]
  consider "active_sessions (record_session_start env mon st s) = active_sessions st"
    | sid uid uname media_name now loc where "raw_Id s = Some sid" "raw_UserId s = Some uid"
        "active_sessions (record_session_start env mon st s) =
             AList.update sid (build_session_data s sid uid uname media_name now loc) (active_sessions st)"
    by blast
  then show ?thesis
  proof cases
    case 1
    then show ?thesis using assms(2) by simp
  next
    case 2
    have "built_from current sid (build_session_data s sid uid uname media_name now loc)"
      unfolding built_from_def using assms(1) 2(1,2) by blast
    then show ?thesis
      using assms(2) 2(3) unfolding kept_or_built_def
      by (auto simp add: AList.update_conv' split: if_splits)
  qed
qed

lemma kept_or_built_end:
  assumes "kept_or_built current m (active_sessions st)"
  shows "kept_or_built current m (active_sessions (record_session_end env st sid))"
proof (unfold kept_or_built_def, intro allI impI)
  fix k v assume "map_of (active_sessions (record_session_end env st sid)) k = Some v"
  then have "map_of (active_sessions st) k = Some v"
    using record_session_end_sessions [of env st sid]
    by (auto simp add: AList.delete_conv' split: if_splits)
  then show "map_of m k = Some v \<or> built_from current k v"
    using assms unfolding kept_or_built_def by blast
qed

lemma kept_or_built_detect_new:
  assumes "set rest \<subseteq> set current" and "kept_or_built current m (active_sessions st)"
  shows "kept_or_built current m (active_sessions (detect_new_sessions env mon st rest))"
  using assms
proof (induction rest arbitrary: st)
  case Nil
  then show ?case by simp
next
  case (Cons x rest)
  obtain sid s where x: "x = (sid, s)" by (cases x)
  with Cons.prems(1) have "s \<in> snd ` set current" by force
  then have "kept_or_built current m (active_sessions (record_session_start env mon st s))"
    using Cons.prems(2) by (rule kept_or_built_start)
  then have "kept_or_built current m (active_sessions
      (if sid \<in> set (map fst (active_sessions st)) then st else record_session_start env mon st s))"
    using Cons.prems(2) by simp
  moreover have "set rest \<subseteq> set current" using Cons.prems(1) by simp
  ultimately show ?case unfolding x detect_new_sessions.simps by (rule Cons.IH [rotated])
qed

lemma kept_or_built_fold_end:
  assumes "kept_or_built current m (active_sessions st)"
  shows "kept_or_built current m (active_sessions (fold (\<lambda>sid s. record_session_end env s sid) sids st))"
  using assms by (induction sids arbitrary: st) (simp_all add: kept_or_built_end)

lemma kept_or_built_process_sessions:
  "kept_or_built (case get_active_sessions env (trace st) of Inl e \<Rightarrow> [] | Inr current \<Rightarrow> current)
     (active_sessions st) (active_sessions (process_sessions env mon st))"
proof (cases "get_active_sessions env (trace st)")
  case (Inl e)
  then show ?thesis by (simp add: process_sessions_def kept_or_built_def)
next
  case (Inr current)
  have "kept_or_built current (active_sessions st) (active_sessions st)"
    by (simp add: kept_or_built_def)
  then have "kept_or_built current (active_sessions st) (active_sessions (detect_new_sessions env mon st current))"
    by (rule kept_or_built_detect_new [OF subset_refl])
  then show ?thesis using Inr
    by (simp add: process_sessions_def detect_ended_sessions_def kept_or_built_fold_end)
qed

lemma keys_match_step:
  assumes "keys_match m" and "kept_or_built current m m'"
  shows "keys_match m'"
  using assms unfolding keys_match_def kept_or_built_def built_from_def
  by (fastforce simp add: build_session_data_def)

lemma keys_match_process_sessions:
  "keys_match (active_sessions st) \<Longrightarrow> keys_match (active_sessions (process_sessions env mon st))"
  using keys_match_step kept_or_built_process_sessions by blast

lemma keys_match_ticks:
  "keys_match (active_sessions st) \<Longrightarrow> keys_match (active_sessions ((process_sessions env mon ^^ n) st))"
  by (induction n) (simp_all add: keys_match_process_sessions)

text \<open>The whitelist invariant is kept by every operation.\<close>

lemma whitelist_init:
  "str_lower env nm \<in> set (whitelist (EmbyMonitor_init env cfg)) \<longleftrightarrow> matches_whitelist env cfg nm"
  by (auto simp add: EmbyMonitor_init_def matches_whitelist_def)

lemma trace_ok_simps [simp]:
  "trace_ok env mon []"
  "trace_ok env mon (xs @ ys) = (trace_ok env mon xs \<and> trace_ok env mon ys)"
  "trace_ok env mon (e # es) = (ev_ok env mon e \<and> trace_ok env mon es)"
  by (simp_all add: trace_ok_def)

lemma trace_ok_prints [simp]: "trace_ok env mon (map Print msgs)"
  by (induction msgs) (simp_all add: ev_ok_def)

lemma ev_ok_simps [simp]:
  "ev_ok env mon (Print m)"
  "ev_ok env mon (DbRecordSessionEnd sid t d)"
  "ev_ok env mon (DbRecordSessionStart sd) = (str_lower env (username sd) \<notin> set (whitelist mon))"
  "ev_ok env mon (DbLogSecurityEvent l) = (str_lower env (log_username l) \<notin> set (whitelist mon))"
  "ev_ok env mon (DisableUser u n) = (str_lower env n \<notin> set (whitelist mon))"
  by (simp_all add: ev_ok_def)

lemma trace_ok_get_location [simp]:
  "trace_ok env mon (trace (snd (get_location env st a))) = trace_ok env mon (trace st)"
  using trace_get_location [of env st a] by auto

lemma trace_ok_disable_user:
  assumes "str_lower env n \<notin> set (whitelist mon)" and "trace_ok env mon (trace st)"
  shows "trace_ok env mon (trace (snd (disable_user env st u n)))"
  using trace_disable_user [of env st u n] assms by auto

lemma trace_ok_log_security_action:
  assumes "str_lower env n \<notin> set (whitelist mon)" and "trace_ok env mon (trace st)"
  shows "trace_ok env mon (trace (log_security_action env st u a c n))"
  using trace_log_security_action [where env = env and st = st and u = u and a = a and c = c and n = n] assms
  by auto

text \<open>
  The three ways \<open>_record_session_start\<close> can end: in a handler or at the whitelist check
  (console output only), in a handler after the database call raised, or with the session
  recorded and the abnormality check run.
\<close>

lemma record_session_start_cases:
  obtains (logged) "only_logged st (record_session_start env mon st s)"
  | (persist_failed) u sid ui media_name loc st1 sd e where
      "raw_UserId s = Some u" "raw_Id s = Some sid" "get_user_info env (trace st) u = Inr ui"
      "str_lower env (resolved_name env ui) \<notin> set (whitelist mon)"
      "get_location env st (endpoint_ip s) = (loc, st1)"
      "sd = build_session_data s sid u (resolved_name env ui) media_name (datetime_now env (trace st1)) loc"
      "record_session_start env mon st s = start_failed e (emit (DbRecordSessionStart sd) st1)"
  | (recorded) u sid ui media_name loc st1 sd where
      "raw_UserId s = Some u" "raw_Id s = Some sid" "get_user_info env (trace st) u = Inr ui"
      "str_lower env (resolved_name env ui) \<notin> set (whitelist mon)"
      "get_location env st (endpoint_ip s) = (loc, st1)"
      "sd = build_session_data s sid u (resolved_name env ui) media_name (datetime_now env (trace st1)) loc"
      "record_session_start env mon st s =
         check_login_abnormality env mon
           (print_msg (MsgSessionStart (resolved_name env ui) (device sd) (endpoint_ip s) loc (media sd))
              ((emit (DbRecordSessionStart sd) st1)\<lparr>active_sessions := AList.update sid sd (active_sessions st1)\<rparr>))
           u (endpoint_ip s)"
proof (cases "raw_UserId s")
  case None
  then have "only_logged st (record_session_start env mon st s)"
    by (simp add: record_session_start_def only_logged_start_failed)
  then show thesis by (rule logged)
next
  case u: (Some u)
  show thesis
  proof (cases "get_user_info env (trace st) u")
    case (Inl e)
    with u have "only_logged st (record_session_start env mon st s)"
      by (simp add: record_session_start_def only_logged_start_failed)
    then show thesis by (rule logged)
  next
    case ui: (Inr ui)
    show thesis
    proof (cases "str_lower env (resolved_name env ui) \<in> set (whitelist mon)")
      case True
      with u ui have "only_logged st (record_session_start env mon st s)"
        by (simp add: record_session_start_def only_logged_print)
      then show thesis by (rule logged)
    next
      case nwl: False
      show thesis
      proof (cases "parse_media_info env (trace st) (case raw_NowPlayingItem s of None \<Rightarrow> [] | Some m \<Rightarrow> m)")
        case (Inl e)
        with u ui nwl have "only_logged st (record_session_start env mon st s)"
          by (simp add: record_session_start_def only_logged_start_failed)
        then show thesis by (rule logged)
      next
        case media: (Inr media_name)
        obtain loc st1 where gl: "get_location env st (endpoint_ip s) = (loc, st1)"
          by (cases "get_location env st (endpoint_ip s)")
        have ol1: "only_logged st st1"
          using only_logged_get_location [of st env "endpoint_ip s"] gl by simp
        show thesis
        proof (cases "raw_Id s")
          case None
          with u ui nwl media gl ol1 have "only_logged st (record_session_start env mon st s)"
            by (simp add: record_session_start_def only_logged_start_failed)
          then show thesis by (rule logged)
        next
          case sid: (Some sid)
          define sd where "sd = build_session_data s sid u (resolved_name env ui) media_name (datetime_now env (trace st1)) loc"
          show thesis
          proof (cases "db_record_session_start env (trace st1 @ [DbRecordSessionStart sd]) sd")
            case None
            with u ui nwl media gl sid have "record_session_start env mon st s =
               check_login_abnormality env mon
                 (print_msg (MsgSessionStart (resolved_name env ui) (device sd) (endpoint_ip s) loc (media sd))
                   ((emit (DbRecordSessionStart sd) st1)\<lparr>active_sessions := AList.update sid sd (active_sessions st1)\<rparr>))
                 u (endpoint_ip s)"
              by (simp add: record_session_start_def Let_def sd_def)
            with u sid ui nwl gl sd_def show thesis by (rule recorded)
          next
            case (Some e)
            with u ui nwl media gl sid have "record_session_start env mon st s =
               start_failed e (emit (DbRecordSessionStart sd) st1)"
              by (simp add: record_session_start_def Let_def sd_def)
            with u sid ui nwl gl sd_def show thesis by (rule persist_failed)
          qed
        qed
      qed
    qed
  qed
qed

lemma wl_inv_only_logged: "only_logged st st' \<Longrightarrow> wl_inv env mon st \<Longrightarrow> wl_inv env mon st'"
  unfolding only_logged_def wl_inv_def by auto

lemma wl_inv_start_failed: "wl_inv env mon st \<Longrightarrow> wl_inv env mon (start_failed e st)"
  by (simp add: wl_inv_def trace_start_failed)

lemma wl_inv_trigger_alert:
  assumes "wl_inv env mon st"
  shows "wl_inv env mon (trigger_alert env mon st u a c)"
proof (cases "get_user_info env (trace st) u")
  case (Inl e)
  then show ?thesis using assms by (simp add: trigger_alert_def wl_inv_def)
next
  case (Inr ui)
  show ?thesis
  proof (cases "str_lower env (resolved_name env ui) \<in> set (whitelist mon)")
    case True
    with Inr show ?thesis using assms by (simp add: trigger_alert_def wl_inv_def)
  next
    case False
    obtain loc st1 where gl: "get_location env st a = (loc, st1)" by (cases "get_location env st a")
    let ?st4 = "print_msg MsgSeparator (print_msg (MsgAlert (datetime_now env (trace st1)) (resolved_name env ui) a loc c) (print_msg MsgSeparator st1))"
    obtain ok st5 where du: "disable_user env ?st4 u (resolved_name env ui) = (ok, st5)"
      by (cases "disable_user env ?st4 u (resolved_name env ui)")
    have w1: "wl_inv env mon st1"
      using only_logged_get_location [of st env a] gl assms by (auto intro: wl_inv_only_logged)
    then have w4: "wl_inv env mon ?st4" by (simp add: wl_inv_def)
    have w5: "wl_inv env mon st5"
      using trace_ok_disable_user [OF False, where st = ?st4 and u = u] sessions_disable_user [of env ?st4 u "resolved_name env ui"] w4 du
      by (simp add: wl_inv_def)
    have w6: "wl_inv env mon (log_security_action env st5 u a c (resolved_name env ui))"
      using trace_ok_log_security_action [OF False, where st = st5 and u = u and a = a and c = c] w5 by (simp add: wl_inv_def)
    show ?thesis using Inr False gl du w4 w5 w6
      by (simp add: trigger_alert_def Let_def)
  qed
qed

lemma wl_inv_check_login_abnormality:
  "wl_inv env mon st \<Longrightarrow> wl_inv env mon (check_login_abnormality env mon st u a)"
  by (simp add: check_login_abnormality_def Let_def wl_inv_trigger_alert)

lemma sessions_ok_update:
  "sessions_ok env mon m \<Longrightarrow> str_lower env (username sd) \<notin> set (whitelist mon) \<Longrightarrow> sessions_ok env mon (AList.update k sd m)"
  by (induction m) (auto simp add: sessions_ok_def)

lemma sessions_ok_delete: "sessions_ok env mon m \<Longrightarrow> sessions_ok env mon (AList.delete k m)"
  by (induction m) (auto simp add: sessions_ok_def)

lemma username_build [simp]: "username (build_session_data s sid u n m t l) = n"
  by (simp add: build_session_data_def)

lemma wl_inv_record_session_start:
  assumes "wl_inv env mon st"
  shows "wl_inv env mon (record_session_start env mon st s)"
proof (cases rule: record_session_start_cases [of st env mon s])
  case logged
  then show ?thesis using assms by (rule wl_inv_only_logged)
next
  case (persist_failed u sid ui media_name loc st1 sd e)
  have "wl_inv env mon st1"
    using only_logged_get_location [of st env "endpoint_ip s"] persist_failed(5) assms
    by (auto intro: wl_inv_only_logged)
  then have "wl_inv env mon (emit (DbRecordSessionStart sd) st1)"
    using persist_failed(4,6) by (simp add: wl_inv_def)
  then show ?thesis unfolding persist_failed(7) by (rule wl_inv_start_failed)
next
  case (recorded u sid ui media_name loc st1 sd)
  have "wl_inv env mon st1"
    using only_logged_get_location [of st env "endpoint_ip s"] recorded(5) assms
    by (auto intro: wl_inv_only_logged)
  then have "wl_inv env mon (print_msg (MsgSessionStart (resolved_name env ui) (device sd) (endpoint_ip s) loc (media sd))
              ((emit (DbRecordSessionStart sd) st1)\<lparr>active_sessions := AList.update sid sd (active_sessions st1)\<rparr>))"
    using recorded(4,6) by (simp add: wl_inv_def sessions_ok_update)
  then show ?thesis unfolding recorded(7) by (rule wl_inv_check_login_abnormality)
qed

lemma wl_inv_record_session_end:
  assumes "wl_inv env mon st"
  shows "wl_inv env mon (record_session_end env st sid)"
  using assms
  by (simp add: record_session_end_def Let_def wl_inv_def sessions_ok_delete split: option.splits exn.splits)

lemma wl_inv_detect_new_sessions:
  "wl_inv env mon st \<Longrightarrow> wl_inv env mon (detect_new_sessions env mon st current)"
  by (induction current arbitrary: st) (auto simp add: wl_inv_record_session_start)

lemma wl_inv_fold_end:
  "wl_inv env mon st \<Longrightarrow> wl_inv env mon (fold (\<lambda>sid s. record_session_end env s sid) sids st)"
  by (induction sids arbitrary: st) (simp_all add: wl_inv_record_session_end)

lemma wl_inv_process_sessions:
  assumes "wl_inv env mon st"
  shows "wl_inv env mon (process_sessions env mon st)"
proof (cases "get_active_sessions env (trace st)")
  case (Inl e)
  then show ?thesis using assms by (simp add: process_sessions_def wl_inv_def)
next
  case (Inr current)
  then show ?thesis using assms
    by (simp add: process_sessions_def detect_ended_sessions_def wl_inv_detect_new_sessions wl_inv_fold_end)
qed

lemma wl_inv_ticks:
  "wl_inv env mon st \<Longrightarrow> wl_inv env mon ((process_sessions env mon ^^ n) st)"
  by (induction n) (simp_all add: wl_inv_process_sessions)

lemma wl_inv_unfold:
  "wl_inv env mon st \<longleftrightarrow>
     (\<forall>sd \<in> snd ` set (active_sessions st). str_lower env (username sd) \<notin> set (whitelist mon))
     \<and> (\<forall>e \<in> set (trace st). \<forall>nm. event_username e = Some nm \<longrightarrow> str_lower env nm \<notin> set (whitelist mon))"
  unfolding wl_inv_def sessions_ok_def trace_ok_def ev_ok_def list_all_iff
  by (auto split: option.splits)

text \<open>New sessions only add keys; ended sessions remove only their own.\<close>

lemma keys_record_session_start:
  "fst ` set (active_sessions st) \<subseteq> fst ` set (active_sessions (record_session_start env mon st s))"
proof
  fix k assume k: "k \<in> fst ` set (active_sessions st)"
  have "k \<in> fst ` set (AList.update sid sd (active_sessions st))" for sid sd
    using k by (simp add: AList.dom_update)
  then show "k \<in> fst ` set (active_sessions (record_session_start env mon st s))"
    using record_session_start_sessions [of env mon st s] k by auto
qed

lemma recordable_recorded:
  assumes "recordable env mon k s"
  shows "k \<in> fst ` set (active_sessions (record_session_start env mon st s))"
proof -
  from assms obtain u where id: "raw_Id s = Some k" and u: "raw_UserId s = Some u"
    and info: "\<forall>h. \<exists>ui. get_user_info env h u = Inr ui
                  \<and> str_lower env (resolved_name env ui) \<notin> set (whitelist mon)"
    and parse: "\<forall>h m. \<exists>media_name. parse_media_info env h m = Inr media_name"
    and db: "\<forall>h sd. db_record_session_start env h sd = None"
    unfolding recordable_def by blast
  from info obtain ui where ui: "get_user_info env (trace st) u = Inr ui"
    and nwl: "str_lower env (resolved_name env ui) \<notin> set (whitelist mon)" by blast
  from parse obtain media_name where media:
    "parse_media_info env (trace st) (case raw_NowPlayingItem s of None \<Rightarrow> [] | Some m \<Rightarrow> m) = Inr media_name"
    by blast
  obtain loc st1 where gl: "get_location env st (endpoint_ip s) = (loc, st1)"
    by (cases "get_location env st (endpoint_ip s)")
  define sd where "sd = build_session_data s k u (resolved_name env ui) media_name (datetime_now env (trace st1)) loc"
  have "db_record_session_start env (trace st1 @ [DbRecordSessionStart sd]) sd = None"
    using db by simp
  with id u ui nwl media gl have "active_sessions (record_session_start env mon st s)
      = AList.update k sd (active_sessions st1)"
    by (simp add: record_session_start_def Let_def sd_def)
  then show ?thesis by (simp add: AList.dom_update)
qed

lemma keys_detect_new_sessions:
  "fst ` set (active_sessions st) \<subseteq> fst ` set (active_sessions (detect_new_sessions env mon st current))"
proof (induction current arbitrary: st)
  case Nil
  then show ?case by simp
next
  case (Cons x current)
  obtain k s where x: "x = (k, s)" by (cases x)
  let ?st' = "if k \<in> set (map fst (active_sessions st)) then st else record_session_start env mon st s"
  have "fst ` set (active_sessions st) \<subseteq> fst ` set (active_sessions ?st')"
    using keys_record_session_start [of st env mon s] by simp
  also have "\<dots> \<subseteq> fst ` set (active_sessions (detect_new_sessions env mon ?st' current))"
    by (rule Cons.IH)
  finally show ?case by (simp add: x)
qed

lemma recordable_detect_new_sessions:
  assumes "(k, s) \<in> set current" and "recordable env mon k s"
  shows "k \<in> fst ` set (active_sessions (detect_new_sessions env mon st current))"
  using assms(1)
proof (induction current arbitrary: st)
  case Nil
  then show ?case by simp
next
  case (Cons x current)
  obtain k' s' where x: "x = (k', s')" by (cases x)
  let ?st' = "if k' \<in> set (map fst (active_sessions st)) then st else record_session_start env mon st s'"
  show ?case
  proof (cases "x = (k, s)")
    case True
    then have "k \<in> fst ` set (active_sessions ?st')"
      using recordable_recorded [OF assms(2), of st] x by auto
    then have "k \<in> fst ` set (active_sessions (detect_new_sessions env mon ?st' current))"
      using keys_detect_new_sessions [of ?st' env mon current] by blast
    then show ?thesis by (simp add: x)
  next
    case False
    with Cons.prems have "(k, s) \<in> set current" by simp
    then have "k \<in> fst ` set (active_sessions (detect_new_sessions env mon ?st' current))"
      by (rule Cons.IH)
    then show ?thesis by (simp add: x)
  qed
qed

lemma keys_record_session_end:
  assumes "k \<noteq> sid" and "k \<in> fst ` set (active_sessions st)"
  shows "k \<in> fst ` set (active_sessions (record_session_end env st sid))"
proof -
  have "k \<in> fst ` set (AList.delete sid (active_sessions st))"
    using assms by (force simp add: AList.delete_eq)
  then show ?thesis
    using record_session_end_sessions [of env st sid] assms(2) by auto
qed

lemma keys_fold_end:
  assumes "k \<notin> set sids" and "k \<in> fst ` set (active_sessions st)"
  shows "k \<in> fst ` set (active_sessions (fold (\<lambda>sid s. record_session_end env s sid) sids st))"
  using assms by (induction sids arbitrary: st) (auto simp add: keys_record_session_end)

lemma recordable_process_sessions:
  assumes "get_active_sessions env (trace st) = Inr current"
    and "(k, s) \<in> set current" and "recordable env mon k s"
  shows "k \<in> fst ` set (active_sessions (process_sessions env mon st))"
proof -
  let ?st' = "detect_new_sessions env mon st current"
  have in': "k \<in> fst ` set (active_sessions ?st')"
    using assms(2,3) by (rule recordable_detect_new_sessions)
  have "k \<in> set (map fst current)" using assms(2) by force
  then have "k \<notin> set (ended_sessions ?st' current)"
    by (simp add: ended_sessions_def)
  then have "k \<in> fst ` set (active_sessions (fold (\<lambda>sid s. record_session_end env s sid)
                 (ended_sessions ?st' current) ?st'))"
    using in' by (rule keys_fold_end)
  then show ?thesis using assms(1) by (simp add: process_sessions_def detect_ended_sessions_def)
qed


section \<open>C1: when an alert is triggered\<close>

text \<open>
  Claim C1. A new session of user \<open>u\<close> from address \<open>p\<close> that is not whitelisted, has both
  required fields and is recorded (the database call returns) is inserted into
  \<open>active_sessions\<close>, and then \<open>_trigger_alert\<close> is called if and only if alerting is enabled and
  \<open>alert_threshold - 1 \<le> d\<close>, where \<open>d\<close> is the number of distinct addresses other than \<open>p\<close>
  among the active sessions of \<open>u\<close>; the session count passed to it is \<open>d + 1\<close>.
  Below, \<open>st4\<close> is the state after the insertion; a call of \<open>_trigger_alert\<close> always leaves
  a mark in the trace, so the result differs from \<open>st4\<close> exactly when the alert was triggered.
\<close>

theorem alert_iff_threshold:
  assumes "raw_UserId s = Some u" and "raw_Id s = Some sid"
    and "get_user_info env (trace st) u = Inr ui"
    and "str_lower env (resolved_name env ui) \<notin> set (whitelist mon)"
    and "parse_media_info env (trace st) (case raw_NowPlayingItem s of None \<Rightarrow> [] | Some m \<Rightarrow> m) = Inr media_name"
    and "get_location env st (endpoint_ip s) = (loc, st1)"
    and "sd = build_session_data s sid u (resolved_name env ui) media_name (datetime_now env (trace st1)) loc"
    and "db_record_session_start env (trace st1 @ [DbRecordSessionStart sd]) sd = None"
    and "st4 = \<lparr> active_sessions = AList.update sid sd (active_sessions st),
                 trace = trace st1 @ [DbRecordSessionStart sd,
                   Print (MsgSessionStart (resolved_name env ui) (device sd) (endpoint_ip s) loc media_name)] \<rparr>"
    and "d = distinct_other_ips (active_sessions st4) u (endpoint_ip s)"
  shows "record_session_start env mon st s =
           (if alerts_enabled mon \<and> alert_threshold mon - 1 \<le> int d
            then trigger_alert env mon st4 u (endpoint_ip s) (int d + 1) else st4)
         \<and> (record_session_start env mon st s \<noteq> st4 \<longleftrightarrow>
              alerts_enabled mon \<and> alert_threshold mon - 1 \<le> int d)"
proof -
  have s1: "active_sessions st1 = active_sessions st"
    using sessions_get_location [of env st "endpoint_ip s"] assms(6) by simp
  have m: "media sd = media_name" using assms(7) by (simp add: build_session_data_def)
  have st4': "st4 = print_msg (MsgSessionStart (resolved_name env ui) (device sd) (endpoint_ip s) loc (media sd))
                  ((emit (DbRecordSessionStart sd) st1)\<lparr>active_sessions := AList.update sid sd (active_sessions (emit (DbRecordSessionStart sd) st1))\<rparr>)"
    using assms(9) s1 m by (simp add: print_msg_def emit_def)
  have "record_session_start env mon st s = check_login_abnormality env mon st4 u (endpoint_ip s)"
    unfolding st4' using assms(1-8)
    by (simp add: record_session_start_def Let_def)
  then have eq: "record_session_start env mon st s =
           (if alerts_enabled mon \<and> alert_threshold mon - 1 \<le> int d
            then trigger_alert env mon st4 u (endpoint_ip s) (int d + 1) else st4)"
    using assms(10) by (simp add: check_login_abnormality_eq)
  show ?thesis using eq trigger_alert_neq [of env mon st4 u "endpoint_ip s" "int d + 1"] by auto
qed

text \<open>
  Scenario 2 of the specification: \<open>alice\<close> plays from 1.1.1.1, a second session from 2.2.2.2
  arrives, the threshold is 2: the alert is triggered with session count 2.
\<close>

theorem alert_iff_threshold_witness:
  "record_session_start env0 mon0 st_a1 sess_a2 = trigger_alert env0 mon0 st_a12 ''alice'' ''2.2.2.2'' 2
   \<and> record_session_start env0 mon0 st_a1 sess_a2 \<noteq> st_a12"
proof -
  have h1: "raw_UserId sess_a2 = Some ''alice''" by code_simp
  have h2: "raw_Id sess_a2 = Some ''s2''" by code_simp
  have h3: "get_user_info env0 (trace st_a1) ''alice'' = Inr alice_info" by code_simp
  have h4: "str_lower env0 (resolved_name env0 alice_info) \<notin> set (whitelist mon0)" by code_simp
  have h5: "parse_media_info env0 (trace st_a1)
              (case raw_NowPlayingItem sess_a2 of None \<Rightarrow> [] | Some m \<Rightarrow> m) = Inr ''film''"
    by code_simp
  have h6: "get_location env0 st_a1 (endpoint_ip sess_a2) = (resolve_failed, st_a1)" by code_simp
  have h7: "sd_a2 = build_session_data sess_a2 ''s2'' ''alice'' (resolved_name env0 alice_info) ''film''
                      (datetime_now env0 (trace st_a1)) resolve_failed"
    by code_simp
  have h8: "db_record_session_start env0 (trace st_a1 @ [DbRecordSessionStart sd_a2]) sd_a2 = None"
    by code_simp
  have h9: "st_a12 = \<lparr> active_sessions = AList.update ''s2'' sd_a2 (active_sessions st_a1),
                 trace = trace st_a1 @ [DbRecordSessionStart sd_a2,
                   Print (MsgSessionStart (resolved_name env0 alice_info) (device sd_a2) (endpoint_ip sess_a2)
                            resolve_failed ''film'')] \<rparr>"
    by code_simp
  have h10: "(1::nat) = distinct_other_ips (active_sessions st_a12) ''alice'' (endpoint_ip sess_a2)"
    by code_simp
  have c: "alerts_enabled mon0 \<and> alert_threshold mon0 - 1 \<le> int 1" by code_simp
  have e: "endpoint_ip sess_a2 = ''2.2.2.2''" by code_simp
  from alert_iff_threshold [OF h1 h2 h3 h4 h5 h6 h7 h8 h9 h10] c e show ?thesis by auto
qed


section \<open>C2: the start record cannot be persisted\<close>

text \<open>
  Claim C2, as the code has it. When \<open>db.record_session_start\<close> raises, the exception is
  caught by a handler of \<open>_record_session_start\<close> and printed; the assignment to
  \<open>active_sessions\<close> and the abnormality check, which follow the database call inside the same
  \<open>try\<close>, are skipped. The dictionary is as before the session was seen (so the session is new
  again at the next tick), and the trace ends with the failed call and its message.
\<close>

theorem start_persistence_failure:
  assumes "raw_UserId s = Some u" and "raw_Id s = Some sid"
    and "get_user_info env (trace st) u = Inr ui"
    and "str_lower env (resolved_name env ui) \<notin> set (whitelist mon)"
    and "parse_media_info env (trace st) (case raw_NowPlayingItem s of None \<Rightarrow> [] | Some m \<Rightarrow> m) = Inr media_name"
    and "get_location env st (endpoint_ip s) = (loc, st1)"
    and "sd = build_session_data s sid u (resolved_name env ui) media_name (datetime_now env (trace st1)) loc"
    and "db_record_session_start env (trace st1 @ [DbRecordSessionStart sd]) sd = Some e"
  shows "record_session_start env mon st s =
           \<lparr> active_sessions = active_sessions st,
             trace = trace st1 @ [DbRecordSessionStart sd,
                       Print (case e of KeyError k \<Rightarrow> MsgMissingField e | _ \<Rightarrow> MsgRecordFailed e)] \<rparr>"
proof -
  have s1: "active_sessions st1 = active_sessions st"
    using sessions_get_location [of env st "endpoint_ip s"] assms(6) by simp
  have "record_session_start env mon st s = start_failed e (emit (DbRecordSessionStart sd) st1)"
    using assms by (simp add: record_session_start_def Let_def)
  then show ?thesis using s1
    by (simp add: start_failed_def print_msg_def emit_def split: exn.splits)
qed

text \<open>The database is locked while the first session of \<open>alice\<close> arrives.\<close>

theorem start_persistence_failure_witness:
  "record_session_start env_db_down mon0 initial_state sess_a1 =
     \<lparr> active_sessions = [],
       trace = [DbRecordSessionStart sd_a1, Print (MsgRecordFailed (OtherError ''database is locked''))] \<rparr>"
proof -
  have h1: "raw_UserId sess_a1 = Some ''alice''" by code_simp
  have h2: "raw_Id sess_a1 = Some ''s1''" by code_simp
  have h3: "get_user_info env_db_down (trace initial_state) ''alice'' = Inr alice_info" by code_simp
  have h4: "str_lower env_db_down (resolved_name env_db_down alice_info) \<notin> set (whitelist mon0)" by code_simp
  have h5: "parse_media_info env_db_down (trace initial_state)
              (case raw_NowPlayingItem sess_a1 of None \<Rightarrow> [] | Some m \<Rightarrow> m) = Inr ''film''"
    by code_simp
  have h6: "get_location env_db_down initial_state (endpoint_ip sess_a1) = (resolve_failed, initial_state)"
    by code_simp
  have h7: "sd_a1 = build_session_data sess_a1 ''s1'' ''alice'' (resolved_name env_db_down alice_info) ''film''
                      (datetime_now env_db_down (trace initial_state)) resolve_failed"
    by code_simp
  have h8: "db_record_session_start env_db_down (trace initial_state @ [DbRecordSessionStart sd_a1]) sd_a1
              = Some (OtherError ''database is locked'')"
    by code_simp
  from start_persistence_failure [OF h1 h2 h3 h4 h5 h6 h7 h8] show ?thesis
    by (simp add: initial_state_def)
qed

text \<open>
  The claim as first stated (the session is inserted and checked all the same) fails: with
  threshold 1, where every recorded session raises an alert, a tick whose database call
  raises leaves the dictionary empty and prints no alert.
\<close>

theorem start_not_inserted_counterexample:
  "db_record_session_start env_db_down [DbRecordSessionStart sd_a1] sd_a1 = Some (OtherError ''database is locked'')
   \<and> process_sessions env_db_down mon_one initial_state =
       \<lparr> active_sessions = [],
         trace = [DbRecordSessionStart sd_a1, Print (MsgRecordFailed (OtherError ''database is locked''))] \<rparr>"
  by code_simp


section \<open>C3: whitelisted users\<close>

text \<open>
  Claim C3. Start with the empty dictionary and run any number of ticks against any
  environment. Then no session in \<open>active_sessions\<close> and no call of a collaborator (start
  record, security log, \<open>disable_user\<close>, webhook) carries a user name that matches a whitelist
  entry, ignoring case, after trimming. The check is made twice: \<open>_record_session_start\<close> on a
  session whose resolved name matches only prints that the user is skipped, and
  \<open>_trigger_alert\<close> for a user whose name, resolved again, matches only prints that the user
  is protected. Trimming and case folding are \<open>str.strip\<close> and \<open>str.lower\<close>, whatever they
  compute: the statement holds for every \<open>str_strip\<close> and \<open>str_lower\<close>.
\<close>

theorem whitelisted_never_touched:
  "(\<forall>sd \<in> snd ` set (active_sessions ((process_sessions env (EmbyMonitor_init env cfg) ^^ n) initial_state)).
       \<not> matches_whitelist env cfg (username sd))
   \<and> (\<forall>e \<in> set (trace ((process_sessions env (EmbyMonitor_init env cfg) ^^ n) initial_state)).
        \<forall>nm. event_username e = Some nm \<longrightarrow> \<not> matches_whitelist env cfg nm)
   \<and> (\<forall>st s u ui. raw_UserId s = Some u \<and> get_user_info env (trace st) u = Inr ui
          \<and> matches_whitelist env cfg (resolved_name env ui) \<longrightarrow>
        record_session_start env (EmbyMonitor_init env cfg) st s =
          st\<lparr>trace := trace st @ [Print (MsgWhitelistSkip (resolved_name env ui))]\<rparr>)
   \<and> (\<forall>st u a c ui. get_user_info env (trace st) u = Inr ui
          \<and> matches_whitelist env cfg (resolved_name env ui) \<longrightarrow>
        trigger_alert env (EmbyMonitor_init env cfg) st u a c =
          st\<lparr>trace := trace st @ [Print (MsgWhitelistProtected (resolved_name env ui))]\<rparr>)"
proof -
  have "wl_inv env (EmbyMonitor_init env cfg) initial_state"
    by (simp add: wl_inv_def sessions_ok_def initial_state_def)
  then have "wl_inv env (EmbyMonitor_init env cfg) ((process_sessions env (EmbyMonitor_init env cfg) ^^ n) initial_state)"
    by (rule wl_inv_ticks)
  then have run: "(\<forall>sd \<in> snd ` set (active_sessions ((process_sessions env (EmbyMonitor_init env cfg) ^^ n) initial_state)).
       \<not> matches_whitelist env cfg (username sd))
   \<and> (\<forall>e \<in> set (trace ((process_sessions env (EmbyMonitor_init env cfg) ^^ n) initial_state)).
        \<forall>nm. event_username e = Some nm \<longrightarrow> \<not> matches_whitelist env cfg nm)"
    unfolding wl_inv_unfold whitelist_init by simp
  have start: "record_session_start env (EmbyMonitor_init env cfg) st s =
          st\<lparr>trace := trace st @ [Print (MsgWhitelistSkip (resolved_name env ui))]\<rparr>"
    if "raw_UserId s = Some u" "get_user_info env (trace st) u = Inr ui"
       "matches_whitelist env cfg (resolved_name env ui)" for st s u ui
    using that by (simp add: record_session_start_def Let_def whitelist_init print_msg_def emit_def)
  have alert: "trigger_alert env (EmbyMonitor_init env cfg) st u a c =
          st\<lparr>trace := trace st @ [Print (MsgWhitelistProtected (resolved_name env ui))]\<rparr>"
    if "get_user_info env (trace st) u = Inr ui" "matches_whitelist env cfg (resolved_name env ui)" for st u a c ui
    using that by (simp add: trigger_alert_def Let_def whitelist_init print_msg_def emit_def)
  show ?thesis
  proof (intro conjI allI impI)
    show "\<forall>sd \<in> snd ` set (active_sessions ((process_sessions env (EmbyMonitor_init env cfg) ^^ n) initial_state)).
       \<not> matches_whitelist env cfg (username sd)"
      using run by (rule conjunct1)
    show "\<forall>e \<in> set (trace ((process_sessions env (EmbyMonitor_init env cfg) ^^ n) initial_state)).
        \<forall>nm. event_username e = Some nm \<longrightarrow> \<not> matches_whitelist env cfg nm"
      using run by (rule conjunct2)
  next
    fix st :: state and s :: raw_session and u and ui :: user_info
    assume "raw_UserId s = Some u \<and> get_user_info env (trace st) u = Inr ui
          \<and> matches_whitelist env cfg (resolved_name env ui)"
    then have "raw_UserId s = Some u" and "get_user_info env (trace st) u = Inr ui"
      and "matches_whitelist env cfg (resolved_name env ui)" by simp_all
    then show "record_session_start env (EmbyMonitor_init env cfg) st s =
          st\<lparr>trace := trace st @ [Print (MsgWhitelistSkip (resolved_name env ui))]\<rparr>"
      by (rule start)
  next
    fix st :: state and u a c and ui :: user_info
    assume "get_user_info env (trace st) u = Inr ui \<and> matches_whitelist env cfg (resolved_name env ui)"
    then have "get_user_info env (trace st) u = Inr ui"
      and "matches_whitelist env cfg (resolved_name env ui)" by simp_all
    then show "trigger_alert env (EmbyMonitor_init env cfg) st u a c =
          st\<lparr>trace := trace st @ [Print (MsgWhitelistProtected (resolved_name env ui))]\<rparr>"
      by (rule alert)
  qed
qed

text \<open>
  Scenario 3 of the specification: the whitelist holds \<open>" Admin "\<close>, the user \<open>root\<close> is
  displayed as \<open>"ADMIN "\<close>; \<open>alice\<close>, whose session is recorded in the same tick, is not
  whitelisted.
\<close>

theorem whitelisted_never_touched_witness:
  "record_session_start env_fetch (EmbyMonitor_init env_fetch cfg0) initial_state sess_root =
     \<lparr> active_sessions = [], trace = [Print (MsgWhitelistSkip ''ADMIN'')] \<rparr>
   \<and> trigger_alert env_fetch (EmbyMonitor_init env_fetch cfg0) initial_state ''root'' ''9.9.9.9'' 2 =
     \<lparr> active_sessions = [], trace = [Print (MsgWhitelistProtected ''ADMIN'')] \<rparr>
   \<and> \<not> matches_whitelist env_fetch cfg0 ''alice''"
proof -
  note t = whitelisted_never_touched [where env = env_fetch and cfg = cfg0 and n = "Suc 0"]
  have m: "sd_a1\<lparr>start_time := 1000000\<rparr> \<in> snd ` set (active_sessions
             ((process_sessions env_fetch (EmbyMonitor_init env_fetch cfg0) ^^ Suc 0) initial_state))"
    by code_simp
  have u: "username (sd_a1\<lparr>start_time := 1000000\<rparr>) = ''alice''" by code_simp
  from t [THEN conjunct1, THEN bspec, OF m] u have c1: "\<not> matches_whitelist env_fetch cfg0 ''alice''" by simp
  have h: "raw_UserId sess_root = Some ''root''
         \<and> get_user_info env_fetch (trace initial_state) ''root'' = Inr root_info
         \<and> matches_whitelist env_fetch cfg0 (resolved_name env_fetch root_info)"
    by code_simp
  have h': "get_user_info env_fetch (trace initial_state) ''root'' = Inr root_info
         \<and> matches_whitelist env_fetch cfg0 (resolved_name env_fetch root_info)"
    by code_simp
  have r: "resolved_name env_fetch root_info = ''ADMIN''" by code_simp
  from t [THEN conjunct2, THEN conjunct2, THEN conjunct1, rule_format, OF h]
  have c3: "record_session_start env_fetch (EmbyMonitor_init env_fetch cfg0) initial_state sess_root =
     \<lparr> active_sessions = [], trace = [Print (MsgWhitelistSkip ''ADMIN'')] \<rparr>"
    by (simp add: r initial_state_def)
  from t [THEN conjunct2, THEN conjunct2, THEN conjunct2, rule_format, OF h', of "''9.9.9.9''" 2]
  have c4: "trigger_alert env_fetch (EmbyMonitor_init env_fetch cfg0) initial_state ''root'' ''9.9.9.9'' 2 =
     \<lparr> active_sessions = [], trace = [Print (MsgWhitelistProtected ''ADMIN'')] \<rparr>"
    by (simp add: r initial_state_def)
  from c1 c3 c4 show ?thesis by simp
qed


section \<open>C4: the fetch fails\<close>

text \<open>
  Claim C4. When \<open>get_active_sessions\<close> raises, the tick prints the failure and does nothing
  else: \<open>active_sessions\<close> is what it was, and the trace gains one line of console output, so
  no start or end record is written.
\<close>

theorem fetch_failure_aborts_tick:
  "get_active_sessions env (trace st) = Inl e \<Longrightarrow>
     active_sessions (process_sessions env mon st) = active_sessions st \<and>
     trace (process_sessions env mon st) = trace st @ [Print (MsgUpdateFailed e)]"
  by (simp add: process_sessions_def)

text \<open>The server refuses the connection while one session is active.\<close>

theorem fetch_failure_aborts_tick_witness:
  "active_sessions (process_sessions env_fetch_down mon0 st_a1) = [(''s1'', sd_a1)]
   \<and> trace (process_sessions env_fetch_down mon0 st_a1) = [Print (MsgUpdateFailed (OtherError ''connection refused''))]"
proof -
  have h: "get_active_sessions env_fetch_down (trace st_a1) = Inl (OtherError ''connection refused'')"
    by code_simp
  from fetch_failure_aborts_tick [OF h, of mon0] show ?thesis by (simp add: st_a1_def)
qed


section \<open>C5: what follows a successful disable\<close>

text \<open>
  Claim C5, as the code has it. In \<open>_trigger_alert\<close> for a user who is not whitelisted the
  alert message is always printed. The security log gains exactly one entry, with action
  \<open>DISABLE\<close>, the user, the address and the session count, when automatic disabling is on and
  \<open>disable_user\<close> returns \<open>True\<close>, and no entry otherwise. The webhook notifier is called in
  neither case: the monitor has no notifier.
\<close>

theorem disable_gates_security_log:
  assumes "get_user_info env (trace st) u = Inr ui"
    and "str_lower env (resolved_name env ui) \<notin> set (whitelist mon)"
    and "get_location env st a = (loc, st1)"
    and "alert = MsgAlert (datetime_now env (trace st1)) (resolved_name env ui) a loc c"
    and "st4 = st1\<lparr>trace := trace st1 @ [Print MsgSeparator, Print alert, Print MsgSeparator]\<rparr>"
    and "disable_user env st4 u (resolved_name env ui) = (ok, st5)"
  shows "Print alert \<in> set (trace (trigger_alert env mon st u a c))
       \<and> security_logs (trace (trigger_alert env mon st u a c)) =
           security_logs (trace st) @
             (if auto_disable mon \<and> ok
              then [\<lparr> log_timestamp = datetime_now env (trace st5), log_user_id = u,
                      log_username = resolved_name env ui, log_trigger_ip = a,
                      log_active_sessions = c, log_action = ''DISABLE'' \<rparr>]
              else [])
       \<and> ban_notifications (trace (trigger_alert env mon st u a c)) = ban_notifications (trace st)"
proof -
  from trace_get_location [of env st a] assms(3) obtain msgs where t1: "trace st1 = trace st @ map Print msgs"
    by auto
  have st4': "st4 = print_msg MsgSeparator (print_msg alert (print_msg MsgSeparator st1))"
    using assms(5) by (simp add: print_msg_def emit_def)
  from trace_disable_user [of env st4 u "resolved_name env ui"] assms(6)
  obtain evs where t5: "trace st5 = trace st4 @ DisableUser u (resolved_name env ui) # map Print evs" by auto
  have t4: "trace st4 = trace st @ map Print msgs @ [Print MsgSeparator, Print alert, Print MsgSeparator]"
    using assms(5) t1 by simp
  from trace_log_security_action [where env = env and st = st5 and u = u and a = a and c = c and n = "resolved_name env ui"]
  obtain l evs' where l: "log_user_id l = u" "log_username l = resolved_name env ui" "log_trigger_ip l = a"
      "log_active_sessions l = c" "log_action l = ''DISABLE''" "log_timestamp l = datetime_now env (trace st5)"
    and t6: "trace (log_security_action env st5 u a c (resolved_name env ui)) = trace st5 @ DbLogSecurityEvent l # map Print evs'"
    by blast
  have leq: "l = \<lparr> log_timestamp = datetime_now env (trace st5), log_user_id = u,
                      log_username = resolved_name env ui, log_trigger_ip = a,
                      log_active_sessions = c, log_action = ''DISABLE'' \<rparr>"
    using l by (cases l) simp
  have res: "trigger_alert env mon st u a c =
      (if auto_disable mon then (if ok then log_security_action env st5 u a c (resolved_name env ui) else st5) else st4)"
    using assms(1-4,6) unfolding st4' by (simp add: trigger_alert_def Let_def)
  show ?thesis
    unfolding res using t4 t5 t6 leq by simp
qed

text \<open>Automatic disabling is on and the server answers 204.\<close>

theorem disable_gates_security_log_witness:
  "Print alert_a2 \<in> set (trace (trigger_alert env0 mon0 initial_state ''alice'' ''2.2.2.2'' 2))
   \<and> security_logs (trace (trigger_alert env0 mon0 initial_state ''alice'' ''2.2.2.2'' 2)) = [log_a2]
   \<and> ban_notifications (trace (trigger_alert env0 mon0 initial_state ''alice'' ''2.2.2.2'' 2)) = []"
proof -
  have h1: "get_user_info env0 (trace initial_state) ''alice'' = Inr alice_info" by code_simp
  have h2: "str_lower env0 (resolved_name env0 alice_info) \<notin> set (whitelist mon0)" by code_simp
  have h3: "get_location env0 initial_state ''2.2.2.2'' = (resolve_failed, initial_state)" by code_simp
  have h4: "alert_a2 = MsgAlert (datetime_now env0 (trace initial_state)) (resolved_name env0 alice_info)
                         ''2.2.2.2'' resolve_failed 2"
    by code_simp
  have h5: "st_alerted = initial_state\<lparr>trace := trace initial_state @
                           [Print MsgSeparator, Print alert_a2, Print MsgSeparator]\<rparr>"
    by code_simp
  have h6: "disable_user env0 st_alerted ''alice'' (resolved_name env0 alice_info) = (True, st_disabled)"
    by code_simp
  have a: "auto_disable mon0" by code_simp
  have l: "\<lparr> log_timestamp = datetime_now env0 (trace st_disabled), log_user_id = ''alice'',
              log_username = resolved_name env0 alice_info, log_trigger_ip = ''2.2.2.2'',
              log_active_sessions = 2, log_action = ''DISABLE'' \<rparr> = log_a2"
    by code_simp
  from disable_gates_security_log [OF h1 h2 h3 h4 h5 h6] a l show ?thesis
    by (simp add: initial_state_def)
qed

text \<open>
  The claim as first stated (the webhook is invoked after a successful disable) fails: the
  account is disabled, the security-log entry is written, and that is the end of the trace.
\<close>

theorem webhook_never_invoked_counterexample:
  "auto_disable mon0
   \<and> disable_user env0 st_alerted ''alice'' ''alice'' = (True, st_disabled)
   \<and> trace (trigger_alert env0 mon0 initial_state ''alice'' ''2.2.2.2'' 2) =
       trace st_disabled @ [DbLogSecurityEvent log_a2]
   \<and> ban_notifications (trace (trigger_alert env0 mon0 initial_state ''alice'' ''2.2.2.2'' 2)) = []"
  by code_simp


section \<open>C6: sessions that share one address\<close>

text \<open>
  Claim C6, as the code has it. With a threshold of at least 2, the abnormality check for a
  user whose active sessions all have the address of the new session triggers nothing,
  however many such sessions there are.
\<close>

theorem same_ip_no_alert:
  assumes "2 \<le> alert_threshold mon"
    and "\<forall>sd \<in> snd ` set (active_sessions st). user_id sd = u \<longrightarrow> ip sd = p"
  shows "check_login_abnormality env mon st u p = st"
proof -
  have "existing_ips (active_sessions st) u p = {}"
    using assms(2) by (auto simp add: existing_ips_eq)
  then show ?thesis using assms(1) by (simp add: check_login_abnormality_def)
qed

text \<open>Two sessions of \<open>alice\<close> from 1.1.1.1, threshold 2.\<close>

theorem same_ip_no_alert_witness:
  "check_login_abnormality env0 mon0 st_same ''alice'' ''1.1.1.1'' = st_same"
proof -
  have h1: "2 \<le> alert_threshold mon0" by code_simp
  have h2: "\<forall>sd \<in> snd ` set (active_sessions st_same). user_id sd = ''alice'' \<longrightarrow> ip sd = ''1.1.1.1''"
    by code_simp
  from same_ip_no_alert [OF h1 h2] show ?thesis .
qed

text \<open>
  The claim as first stated (every threshold from 1 on) fails at threshold 1: the only
  session of \<open>alice\<close> raises an alert with session count 1 and the account is disabled.
\<close>

theorem threshold_one_same_ip_counterexample:
  "alerts_enabled mon_one \<and> alert_threshold mon_one = 1
   \<and> active_sessions st_a1 = [(''s1'', sd_a1)] \<and> user_id sd_a1 = ''alice'' \<and> ip sd_a1 = ''1.1.1.1''
   \<and> trace (check_login_abnormality env0 mon_one st_a1 ''alice'' ''1.1.1.1'') =
       [Print MsgSeparator, Print (MsgAlert 0 ''alice'' ''1.1.1.1'' resolve_failed 1), Print MsgSeparator,
        DisableUser ''alice'' ''alice'', Print (MsgDisabling ''alice'' ''alice''), Print (MsgDisabled ''alice''),
        DbLogSecurityEvent \<lparr> log_timestamp = 6000000, log_user_id = ''alice'', log_username = ''alice'',
              log_trigger_ip = ''1.1.1.1'', log_active_sessions = 1, log_action = ''DISABLE'' \<rparr>]"
  by code_simp


section \<open>C7: the scheduler loop\<close>





section \<open>C8: the end record cannot be persisted\<close>

text \<open>
  Claim C8, as the code has it. \<open>_record_session_end\<close> on an id that is not in the dictionary
  prints a warning and does nothing else. On an id that is in the dictionary it calls
  \<open>db.record_session_end\<close>; when the call raises, the exception is printed and the entry stays
  in the dictionary (the \<open>del\<close> follows the call inside the same \<open>try\<close>), so the end is
  tried again at the next tick; when the call returns, the entry is deleted and every other
  entry is kept.
\<close>

theorem end_persistence_failure:
  "(map_of (active_sessions st) sid = None \<longrightarrow>
      record_session_end env st sid = st\<lparr>trace := trace st @ [Print (MsgSessionGone sid)]\<rparr>)
   \<and> (\<forall>sd end_time duration e.
        map_of (active_sessions st) sid = Some sd \<and> end_time = datetime_now env (trace st)
        \<and> duration = whole_seconds (end_time - start_time sd)
        \<and> db_record_session_end env (trace st @ [DbRecordSessionEnd sid end_time duration]) sid end_time duration = Some e
        \<longrightarrow> active_sessions (record_session_end env st sid) = active_sessions st
          \<and> trace (record_session_end env st sid) = trace st @ [DbRecordSessionEnd sid end_time duration,
                Print (case e of KeyError k \<Rightarrow> MsgSessionGone sid | _ \<Rightarrow> MsgEndFailed e)])
   \<and> (\<forall>sd end_time duration.
        map_of (active_sessions st) sid = Some sd \<and> end_time = datetime_now env (trace st)
        \<and> duration = whole_seconds (end_time - start_time sd)
        \<and> db_record_session_end env (trace st @ [DbRecordSessionEnd sid end_time duration]) sid end_time duration = None
        \<longrightarrow> map_of (active_sessions (record_session_end env st sid)) = (map_of (active_sessions st))(sid := None)
          \<and> trace (record_session_end env st sid) = trace st @ [DbRecordSessionEnd sid end_time duration,
                Print (MsgSessionEnd (username sd) duration)])"
  by (auto simp add: record_session_end_def Let_def print_msg_def emit_def AList.delete_conv' split: exn.splits)

text \<open>An unknown id; the session of \<open>alice\<close> with the database locked; the same with the database up.\<close>

theorem end_persistence_failure_witness:
  "record_session_end env0 initial_state ''s1'' = \<lparr> active_sessions = [], trace = [Print (MsgSessionGone ''s1'')] \<rparr>
   \<and> active_sessions (record_session_end env_end_down st_a1 ''s1'') = [(''s1'', sd_a1)]
   \<and> map_of (active_sessions (record_session_end env0 st_a1 ''s1'')) ''s1'' = None"
proof -
  have h1: "map_of (active_sessions initial_state) ''s1'' = None" by code_simp
  have h2: "map_of (active_sessions st_a1) ''s1'' = Some sd_a1
          \<and> 0 = datetime_now env_end_down (trace st_a1)
          \<and> 0 = whole_seconds (0 - start_time sd_a1)
          \<and> db_record_session_end env_end_down (trace st_a1 @ [DbRecordSessionEnd ''s1'' 0 0]) ''s1'' 0 0
              = Some (OtherError ''database is locked'')"
    by code_simp
  have h3: "map_of (active_sessions st_a1) ''s1'' = Some sd_a1
          \<and> 0 = datetime_now env0 (trace st_a1)
          \<and> 0 = whole_seconds (0 - start_time sd_a1)
          \<and> db_record_session_end env0 (trace st_a1 @ [DbRecordSessionEnd ''s1'' 0 0]) ''s1'' 0 0 = None"
    by code_simp
  from end_persistence_failure [where st = initial_state and sid = "''s1''" and env = env0,
        THEN conjunct1, rule_format, OF h1]
  have c1: "record_session_end env0 initial_state ''s1'' =
              \<lparr> active_sessions = [], trace = [Print (MsgSessionGone ''s1'')] \<rparr>"
    by (simp add: initial_state_def)
  from end_persistence_failure [where st = st_a1 and sid = "''s1''" and env = env_end_down,
        THEN conjunct2, THEN conjunct1, rule_format, OF h2]
  have c2: "active_sessions (record_session_end env_end_down st_a1 ''s1'') = [(''s1'', sd_a1)]"
    by (simp add: st_a1_def)
  from end_persistence_failure [where st = st_a1 and sid = "''s1''" and env = env0,
        THEN conjunct2, THEN conjunct2, rule_format, OF h3]
  have c3: "map_of (active_sessions (record_session_end env0 st_a1 ''s1'')) ''s1'' = None"
    by simp
  from c1 c2 c3 show ?thesis by simp
qed

text \<open>
  The claim as first stated (the id is removed even when the database call fails) fails: the
  fetch is empty, the database is locked, and the session is still in the dictionary after
  the tick.
\<close>

theorem end_not_removed_counterexample:
  "get_active_sessions env_end_down (trace st_a1) = Inr []
   \<and> process_sessions env_end_down mon0 st_a1 =
       \<lparr> active_sessions = [(''s1'', sd_a1)],
         trace = [DbRecordSessionEnd ''s1'' 0 0, Print (MsgEndFailed (OtherError ''database is locked''))] \<rparr>"
  by code_simp


section \<open>C9: a session without a required field\<close>

text \<open>
  Claim C9. A fetched session \<open>s\<close> without \<open>Id\<close> or without \<open>UserId\<close> changes nothing but
  the console: \<open>active_sessions\<close> is unchanged and no collaborator is called with a start
  record. The loop goes on: the session that follows \<open>s\<close> in the fetch is tested against the
  same dictionary and, when it is new, passed to \<open>_record_session_start\<close>. And the tick does
  its work for the others: every recordable session of a fetch that contains \<open>s\<close> is in
  \<open>active_sessions\<close> when the tick is over.
\<close>

theorem missing_field_skips_session:
  assumes "raw_Id s = None \<or> raw_UserId s = None"
  shows "active_sessions (record_session_start env mon st s) = active_sessions st
       \<and> (\<exists>msgs. trace (record_session_start env mon st s) = trace st @ map Print msgs)
       \<and> detect_new_sessions env mon st ((k, s) # (k2, s2) # rest) =
           detect_new_sessions env mon
             (if k2 \<in> set (map fst (active_sessions st))
              then (if k \<in> set (map fst (active_sessions st)) then st else record_session_start env mon st s)
              else record_session_start env mon
                     (if k \<in> set (map fst (active_sessions st)) then st else record_session_start env mon st s) s2)
             rest
       \<and> (\<forall>current k3 s3. get_active_sessions env (trace st) = Inr current
              \<and> (k, s) \<in> set current \<and> (k3, s3) \<in> set current \<and> recordable env mon k3 s3
            \<longrightarrow> k3 \<in> fst ` set (active_sessions (process_sessions env mon st)))"
proof -
  have ol: "only_logged st (record_session_start env mon st s)"
    using assms by (rule record_session_start_missing_field)
  then have same: "active_sessions (record_session_start env mon st s) = active_sessions st"
    and prints: "\<exists>msgs. trace (record_session_start env mon st s) = trace st @ map Print msgs"
    unfolding only_logged_def by simp_all
  have next_one: "detect_new_sessions env mon st ((k, s) # (k2, s2) # rest) =
           detect_new_sessions env mon
             (if k2 \<in> set (map fst (active_sessions st))
              then (if k \<in> set (map fst (active_sessions st)) then st else record_session_start env mon st s)
              else record_session_start env mon
                     (if k \<in> set (map fst (active_sessions st)) then st else record_session_start env mon st s) s2)
             rest"
    using same by simp
  have others: "k3 \<in> fst ` set (active_sessions (process_sessions env mon st))"
    if "get_active_sessions env (trace st) = Inr current \<and> (k, s) \<in> set current
        \<and> (k3, s3) \<in> set current \<and> recordable env mon k3 s3" for current k3 s3
    using that recordable_process_sessions [of env st current k3 s3 mon] by simp
  show ?thesis
  proof (intro conjI allI impI)
    show "active_sessions (record_session_start env mon st s) = active_sessions st" by (rule same)
    show "\<exists>msgs. trace (record_session_start env mon st s) = trace st @ map Print msgs" by (rule prints)
    show "detect_new_sessions env mon st ((k, s) # (k2, s2) # rest) =
           detect_new_sessions env mon
             (if k2 \<in> set (map fst (active_sessions st))
              then (if k \<in> set (map fst (active_sessions st)) then st else record_session_start env mon st s)
              else record_session_start env mon
                     (if k \<in> set (map fst (active_sessions st)) then st else record_session_start env mon st s) s2)
             rest" by (rule next_one)
  next
    fix current :: "(string \<times> raw_session) list" and k3 and s3 :: raw_session
    assume "get_active_sessions env (trace st) = Inr current
              \<and> (k, s) \<in> set current \<and> (k3, s3) \<in> set current \<and> recordable env mon k3 s3"
    then show "k3 \<in> fst ` set (active_sessions (process_sessions env mon st))" by (rule others)
  qed
qed

text \<open>
  The fetch holds a session of \<open>alice\<close> without \<open>Id\<close> and then her session \<open>s1\<close>: the first
  is reported on the console, the second is recorded.
\<close>

theorem missing_field_skips_session_witness:
  "raw_Id sess_noid = None
   \<and> active_sessions (record_session_start env_bad mon0 initial_state sess_noid) = []
   \<and> detect_new_sessions env_bad mon0 initial_state [(''s0'', sess_noid), (''s1'', sess_a1)] =
       record_session_start env_bad mon0 (record_session_start env_bad mon0 initial_state sess_noid) sess_a1
   \<and> ''s1'' \<in> fst ` set (active_sessions (process_sessions env_bad mon0 initial_state))
   \<and> process_sessions env_bad mon0 initial_state =
       \<lparr> active_sessions = [(''s1'', sd_a1_late)],
         trace = [Print (MsgMissingField (KeyError ''Id'')), DbRecordSessionStart sd_a1_late,
                  Print (MsgSessionStart ''alice'' ''tv'' ''1.1.1.1'' resolve_failed ''film'')] \<rparr>"
proof -
  have h: "raw_Id sess_noid = None" by code_simp
  then have h': "raw_Id sess_noid = None \<or> raw_UserId sess_noid = None" by simp
  note t = missing_field_skips_session [OF h', where env = env_bad and mon = mon0 and st = initial_state
             and k = "''s0''"]
  from t [THEN conjunct1] have c1: "active_sessions (record_session_start env_bad mon0 initial_state sess_noid) = []"
    by (simp add: initial_state_def)
  from missing_field_skips_session [OF h', where env = env_bad and mon = mon0 and st = initial_state
         and k = "''s0''" and ?k2.0 = "''s1''" and ?s2.0 = sess_a1 and rest = "[]",
         THEN conjunct2, THEN conjunct2, THEN conjunct1]
  have c3: "detect_new_sessions env_bad mon0 initial_state [(''s0'', sess_noid), (''s1'', sess_a1)] =
       record_session_start env_bad mon0 (record_session_start env_bad mon0 initial_state sess_noid) sess_a1"
    by (simp add: initial_state_def)
  have a: "raw_Id sess_a1 = Some ''s1''" and b: "raw_UserId sess_a1 = Some ''alice''" by code_simp+
  have c: "get_user_info env_bad hist ''alice'' = Inr alice_info" for hist
    by (simp add: env_bad_def env0_def alice_info_def)
  have d: "str_lower env_bad (resolved_name env_bad alice_info) \<notin> set (whitelist mon0)" by code_simp
  have e: "parse_media_info env_bad hist m = Inr ''film''" for hist m
    by (simp add: env_bad_def env0_def)
  have f: "db_record_session_start env_bad hist sd = None" for hist sd
    by (simp add: env_bad_def env0_def)
  have r: "recordable env_bad mon0 ''s1'' sess_a1"
    unfolding recordable_def using a b c d e f by blast
  have g: "get_active_sessions env_bad (trace initial_state) = Inr [(''s0'', sess_noid), (''s1'', sess_a1)]"
    by code_simp
  have hyp: "get_active_sessions env_bad (trace initial_state) = Inr [(''s0'', sess_noid), (''s1'', sess_a1)]
       \<and> (''s0'', sess_noid) \<in> set [(''s0'', sess_noid), (''s1'', sess_a1)]
       \<and> (''s1'', sess_a1) \<in> set [(''s0'', sess_noid), (''s1'', sess_a1)]
       \<and> recordable env_bad mon0 ''s1'' sess_a1"
    using g r by simp
  from t [THEN conjunct2, THEN conjunct2, THEN conjunct2, rule_format, OF hyp]
  have c4: "''s1'' \<in> fst ` set (active_sessions (process_sessions env_bad mon0 initial_state))" .
  have c5: "process_sessions env_bad mon0 initial_state =
       \<lparr> active_sessions = [(''s1'', sd_a1_late)],
         trace = [Print (MsgMissingField (KeyError ''Id'')), DbRecordSessionStart sd_a1_late,
                  Print (MsgSessionStart ''alice'' ''tv'' ''1.1.1.1'' resolve_failed ''film'')] \<rparr>"
    by code_simp
  from h c1 c3 c4 c5 show ?thesis by simp
qed


section \<open>C10: keys and records of the dictionary\<close>

text \<open>
  Claim C10. Every record of \<open>active_sessions\<close> is stored under its own \<open>session_id\<close>: this holds
  after any number of ticks from the empty dictionary, and each tick keeps it. After a tick,
  every entry is either the entry of the same key before the tick, unchanged, or a record
  newly built from a session of this tick's fetch with that \<open>Id\<close>; entries are otherwise only
  deleted.
\<close>

theorem active_sessions_keys_and_mutations:
  "keys_match (active_sessions ((process_sessions env mon ^^ n) initial_state))
   \<and> (keys_match (active_sessions st) \<longrightarrow> keys_match (active_sessions (process_sessions env mon st)))
   \<and> (\<forall>k v. map_of (active_sessions (process_sessions env mon st)) k = Some v \<longrightarrow>
          map_of (active_sessions st) k = Some v
        \<or> (\<exists>current. get_active_sessions env (trace st) = Inr current \<and> built_from current k v))"
proof (intro conjI impI allI)
  have "keys_match (active_sessions initial_state)"
    by (simp add: keys_match_def initial_state_def)
  then show "keys_match (active_sessions ((process_sessions env mon ^^ n) initial_state))"
    by (rule keys_match_ticks)
next
  assume "keys_match (active_sessions st)"
  then show "keys_match (active_sessions (process_sessions env mon st))"
    by (rule keys_match_process_sessions)
next
  fix k v assume a: "map_of (active_sessions (process_sessions env mon st)) k = Some v"
  show "map_of (active_sessions st) k = Some v
        \<or> (\<exists>current. get_active_sessions env (trace st) = Inr current \<and> built_from current k v)"
  proof (cases "get_active_sessions env (trace st)")
    case (Inl e)
    with a show ?thesis by (simp add: process_sessions_def)
  next
    case (Inr current)
    with kept_or_built_process_sessions [of env st mon] a show ?thesis
      by (auto simp add: kept_or_built_def)
  qed
qed

text \<open>The first tick records the session \<open>s1\<close> of \<open>alice\<close>.\<close>

theorem active_sessions_keys_and_mutations_witness:
  "keys_match (active_sessions (process_sessions env_s1 mon0 initial_state))
   \<and> built_from [(''s1'', sess_a1)] ''s1'' sd_a1"
proof -
  note t = active_sessions_keys_and_mutations [where env = env_s1 and mon = mon0 and st = initial_state and n = 0]
  from t [THEN conjunct1] have k0: "keys_match (active_sessions initial_state)" by simp
  from t [THEN conjunct2, THEN conjunct1, rule_format, OF k0]
  have c2: "keys_match (active_sessions (process_sessions env_s1 mon0 initial_state))" .
  have m: "map_of (active_sessions (process_sessions env_s1 mon0 initial_state)) ''s1'' = Some sd_a1"
    by code_simp
  have n: "map_of (active_sessions initial_state) ''s1'' = None" by code_simp
  have f: "get_active_sessions env_s1 (trace initial_state) = Inr [(''s1'', sess_a1)]" by code_simp
  from t [THEN conjunct2, THEN conjunct2, rule_format, OF m] n f
  have c3: "built_from [(''s1'', sess_a1)] ''s1'' sd_a1" by auto
  from c2 c3 show ?thesis by simp
qed

end
